theory Spec2Isabelle
  imports Complex_Main "HOL-Library.Log_Nat"
begin

section \<open>Pulse objects of \<open>logic/pulsed/pulse_objects.py\<close>\<close>

text \<open>
  The classes \<open>PulseBlockElement\<close>, \<open>PulseBlock\<close>, \<open>PulseBlockEnsemble\<close>,
  \<open>PulseSequence\<close>, \<open>PredefinedGeneratorBase\<close> and \<open>PulseObjectGenerator\<close> are
  embedded as records and functions. A method that mutates \<open>self\<close> takes the object and
  returns the pair of its outcome and the object afterwards; the outcome is \<open>Inr v\<close> when
  the method returns \<open>v\<close> and \<open>Inl e\<close> when it raises \<open>e\<close>. The object is returned in both
  cases, so that whatever a method has already written when it raises stays visible.

  Durations and increments are Python floats in the source: IEEE 754 double precision
  numbers, every operation rounded to the nearest double. They are modelled as such,
  with the rounding written out.
\<close>

subsection \<open>Python values and containers\<close>

datatype py_error =
  ValueError | TypeError | IndexError | KeyError | AttributeError | OverflowError
  | ZeroDivisionError

text \<open>\<open>s.startswith(p)\<close>.\<close>

definition startswith :: "string \<Rightarrow> string \<Rightarrow> bool" where
  "startswith s p = (take (length p) s = p)"

text \<open>
  The position that \<open>xs[i]\<close> reads, writes or deletes in a list of length \<open>n\<close>: a negative
  index counts from the end, and \<open>None\<close> stands for the IndexError outside \<open>-n .. n-1\<close>.
\<close>

definition py_index :: "nat \<Rightarrow> int \<Rightarrow> nat option" where
  "py_index n i =
     (let j = (if i < 0 then int n + i else i)
      in if 0 \<le> j \<and> j < int n then Some (nat j) else None)"

text \<open>\<open>del xs[i]\<close> at a position already resolved by \<open>py_index\<close>.\<close>

definition py_del :: "nat \<Rightarrow> 'a list \<Rightarrow> 'a list" where
  "py_del i xs = take i xs @ drop (Suc i) xs"

text \<open>
  \<open>xs.insert(i, x)\<close>: never raises; a negative index counts from the end and the
  position is clamped into \<open>0 .. len(xs)\<close>.
\<close>

definition py_insert :: "int \<Rightarrow> 'a \<Rightarrow> 'a list \<Rightarrow> 'a list" where
  "py_insert i x xs =
     (let n = int (length xs);
          j = (if i < 0 then max 0 (n + i) else min i n)
      in take (nat j) xs @ x # drop (nat j) xs)"

text \<open>A dict with string keys, in insertion order; \<open>d[k]\<close> raises KeyError on a missing key.\<close>

type_synonym 'v py_dict = "(string \<times> 'v) list"

definition get_item :: "'v py_dict \<Rightarrow> string \<Rightarrow> py_error + 'v" where
  "get_item d k = (case map_of d k of None \<Rightarrow> Inl KeyError | Some v \<Rightarrow> Inr v)"

subsection \<open>Python floats\<close>

text \<open>
  A Python float is a double: a finite value, an infinity or a NaN. A finite float is
  given by its value, a rational number; the two zeros are one value, as \<open>==\<close> has
  them. A float that an operation returns is always a double; the type also has the
  other rationals, which no operation returns.
\<close>

datatype pyfloat = Finite rat | PosInf | NegInf | NaN

text \<open>The power of two with an integer exponent.\<close>

definition pow2 :: "int \<Rightarrow> rat" where
  "pow2 k = (if 0 \<le> k then 2 ^ nat k else 1 / 2 ^ nat (- k))"

text \<open>
  The exponent \<open>e\<close> with \<open>pow2 e \<le> x < pow2 (e + 1)\<close> of a positive rational, from the
  bit lengths of its numerator and denominator.
\<close>

definition floor_log2 :: "rat \<Rightarrow> int" where
  "floor_log2 x =
     (let e0 = bitlen (fst (quotient_of x)) - bitlen (snd (quotient_of x))
      in if x < pow2 e0 then e0 - 1 else e0)"

text \<open>The nearest integer, the even one of two that are equally near.\<close>

definition round_half_even :: "rat \<Rightarrow> int" where
  "round_half_even y =
     (let f = \<lfloor>y\<rfloor>; d = y - of_int f
      in if d < 1 / 2 then f else if 1 / 2 < d then f + 1 else if even f then f else f + 1)"

text \<open>
  The double nearest to a rational (ties to even): 53 bits of significand, the spacing
  of the subnormal numbers below \<open>pow2 (- 1022)\<close>, an infinity when the rounded value
  reaches \<open>pow2 1024\<close>. This is also how Python reads a decimal literal: \<open>10e-9\<close> is
  \<open>round_double (10 / 10 ^ 9)\<close>.
\<close>

definition round_double :: "rat \<Rightarrow> pyfloat" where
  "round_double x =
     (if x = 0 then Finite 0
      else let p = max (floor_log2 \<bar>x\<bar>) (- 1022) - 52;
               r = of_int (round_half_even (\<bar>x\<bar> / pow2 p)) * pow2 p
           in if pow2 1024 \<le> r then (if 0 < x then PosInf else NegInf)
              else Finite (if 0 < x then r else - r))"

text \<open>\<open>x + y\<close>, \<open>x - y\<close> and \<open>x * y\<close> on floats: they never raise.\<close>

fun fadd :: "pyfloat \<Rightarrow> pyfloat \<Rightarrow> pyfloat" where
  "fadd (Finite x) (Finite y) = round_double (x + y)"
| "fadd NaN y = NaN"
| "fadd x NaN = NaN"
| "fadd PosInf NegInf = NaN"
| "fadd NegInf PosInf = NaN"
| "fadd PosInf y = PosInf"
| "fadd NegInf y = NegInf"
| "fadd x PosInf = PosInf"
| "fadd x NegInf = NegInf"

fun fsub :: "pyfloat \<Rightarrow> pyfloat \<Rightarrow> pyfloat" where
  "fsub (Finite x) (Finite y) = round_double (x - y)"
| "fsub NaN y = NaN"
| "fsub x NaN = NaN"
| "fsub PosInf PosInf = NaN"
| "fsub NegInf NegInf = NaN"
| "fsub PosInf y = PosInf"
| "fsub NegInf y = NegInf"
| "fsub x PosInf = NegInf"
| "fsub x NegInf = PosInf"

fun fmul :: "pyfloat \<Rightarrow> pyfloat \<Rightarrow> pyfloat" where
  "fmul (Finite x) (Finite y) = round_double (x * y)"
| "fmul NaN y = NaN"
| "fmul x NaN = NaN"
| "fmul PosInf (Finite y) = (if y = 0 then NaN else if 0 < y then PosInf else NegInf)"
| "fmul NegInf (Finite y) = (if y = 0 then NaN else if 0 < y then NegInf else PosInf)"
| "fmul (Finite x) PosInf = (if x = 0 then NaN else if 0 < x then PosInf else NegInf)"
| "fmul (Finite x) NegInf = (if x = 0 then NaN else if 0 < x then NegInf else PosInf)"
| "fmul PosInf PosInf = PosInf"
| "fmul PosInf NegInf = NegInf"
| "fmul NegInf PosInf = NegInf"
| "fmul NegInf NegInf = PosInf"

text \<open>A rational too large for a double: rounding gives an infinity.\<close>

definition overflows :: "rat \<Rightarrow> bool" where
  "overflows x = (round_double x = PosInf \<or> round_double x = NegInf)"

text \<open>
  The conversion of an integer to a float, as in \<open>x * n\<close> with a float \<open>x\<close> and an
  integer \<open>n\<close>: correctly rounded, OverflowError when the integer is too large.
\<close>

definition float_of_int :: "int \<Rightarrow> py_error + pyfloat" where
  "float_of_int n =
     (if overflows (of_int n) then Inl OverflowError else Inr (round_double (of_int n)))"

text \<open>
  \<open>a / b\<close> on integers: the correctly rounded quotient, OverflowError when it is too
  large for a float.
\<close>

definition int_true_divide :: "int \<Rightarrow> int \<Rightarrow> py_error + pyfloat" where
  "int_true_divide a b =
     (if b = 0 then Inl ZeroDivisionError
      else if overflows (of_int a / of_int b) then Inl OverflowError
      else Inr (round_double (of_int a / of_int b)))"

text \<open>The sum of a list of floats, added one after the other to \<open>0.0\<close>.\<close>

definition float_sum :: "pyfloat list \<Rightarrow> pyfloat" where
  "float_sum xs = foldl fadd (Finite 0) xs"

subsection \<open>PulseBlockElement\<close>

text \<open>
  The fields of the four classes share names in the source (\<open>init_length_s\<close>, \<open>name\<close>,
  \<open>channel_set\<close>, ...); here every field carries the initials of its class. The type
  \<open>'sf\<close> is the type of the sampling-function objects of
  \<open>logic.pulsed.sampling_functions\<close>, which is not part of this file. The durations
  and increments are floats, as the docstrings of the source have them.
\<close>

record 'sf element =
  el_init_length_s :: pyfloat
  el_increment_s :: pyfloat
  el_pulse_function :: "'sf py_dict"
  el_digital_high :: "bool py_dict"
  el_analog_channels :: "string set"
  el_digital_channels :: "string set"
  el_channel_set :: "string set"

text \<open>\<open>PulseBlockElement.__init__\<close>; an argument \<open>None\<close> becomes an empty dict.\<close>

definition PulseBlockElement ::
  "pyfloat \<Rightarrow> pyfloat \<Rightarrow> 'sf py_dict option \<Rightarrow> bool py_dict option \<Rightarrow> 'sf element" where
  "PulseBlockElement init_length_s increment_s pulse_function digital_high =
     (let pf = (case pulse_function of None \<Rightarrow> [] | Some d \<Rightarrow> d);
          dh = (case digital_high of None \<Rightarrow> [] | Some d \<Rightarrow> d)
      in \<lparr>el_init_length_s = init_length_s,
          el_increment_s = increment_s,
          el_pulse_function = pf,
          el_digital_high = dh,
          el_analog_channels = set (map fst pf),
          el_digital_channels = set (map fst dh),
          el_channel_set = set (map fst pf) \<union> set (map fst dh)\<rparr>)"

subsection \<open>PulseBlock\<close>

record 'sf block =
  pb_name :: string
  pb_element_list :: "'sf element list"
  pb_init_length_s :: pyfloat
  pb_increment_s :: pyfloat
  pb_analog_channels :: "string set"
  pb_digital_channels :: "string set"
  pb_channel_set :: "string set"

text \<open>
  The loop of \<open>PulseBlock.refresh_parameters\<close>. The totals are added before the channel
  sets are compared, so they are already written when the ValueError is raised.
\<close>

fun refresh_loop :: "'sf element list \<Rightarrow> 'sf block \<Rightarrow> (py_error + unit) \<times> 'sf block" where
  "refresh_loop [] b = (Inr (), b)"
| "refresh_loop (elem # rest) b =
     (let b1 = b\<lparr>pb_init_length_s := fadd (pb_init_length_s b) (el_init_length_s elem),
                  pb_increment_s := fadd (pb_increment_s b) (el_increment_s elem)\<rparr>
      in if pb_channel_set b1 = {} then
           refresh_loop rest (b1\<lparr>pb_channel_set := el_channel_set elem\<rparr>)
         else if pb_channel_set b1 \<noteq> el_channel_set elem then (Inl ValueError, b1)
         else refresh_loop rest b1)"

definition refresh_parameters :: "'sf block \<Rightarrow> (py_error + unit) \<times> 'sf block" where
  "refresh_parameters b =
     (case refresh_loop (pb_element_list b)
             (b\<lparr>pb_init_length_s := Finite 0, pb_increment_s := Finite 0,
                pb_channel_set := {}\<rparr>) of
        (Inl e, b1) \<Rightarrow> (Inl e, b1)
      | (Inr u, b1) \<Rightarrow>
          (Inr (),
           b1\<lparr>pb_analog_channels := {chnl \<in> pb_channel_set b1. startswith chnl ''a''},
              pb_digital_channels := {chnl \<in> pb_channel_set b1. startswith chnl ''d''}\<rparr>))"

text \<open>\<open>PulseBlock.__init__\<close>: no object exists when \<open>refresh_parameters\<close> raises.\<close>

definition PulseBlock :: "string \<Rightarrow> 'sf element list option \<Rightarrow> py_error + 'sf block" where
  "PulseBlock name element_list =
     (case refresh_parameters
             \<lparr>pb_name = name,
              pb_element_list = (case element_list of None \<Rightarrow> [] | Some l \<Rightarrow> l),
              pb_init_length_s = Finite 0, pb_increment_s = Finite 0,
              pb_analog_channels = {}, pb_digital_channels = {}, pb_channel_set = {}\<rparr> of
        (Inl e, b) \<Rightarrow> Inl e
      | (Inr u, b) \<Rightarrow> Inr b)"

text \<open>
  \<open>PulseBlock.replace_element\<close>. The argument is an element by its type, so the
  \<open>isinstance\<close> test of the source always passes. \<open>copy.deepcopy\<close> is the identity on
  values.
\<close>

definition replace_element ::
  "int \<Rightarrow> 'sf element \<Rightarrow> 'sf block \<Rightarrow> (py_error + int) \<times> 'sf block" where
  "replace_element position element b =
     (if int (length (pb_element_list b)) \<le> position then (Inr (- 1), b)
      else if el_channel_set element \<noteq> pb_channel_set b then (Inl ValueError, b)
      else (case py_index (length (pb_element_list b)) position of
              None \<Rightarrow> (Inl IndexError, b)
            | Some i \<Rightarrow>
                (Inr 0,
                 b\<lparr>pb_init_length_s :=
                      fadd (fsub (pb_init_length_s b)
                              (el_init_length_s (pb_element_list b ! i)))
                        (el_init_length_s element),
                    pb_increment_s :=
                      fadd (fsub (pb_increment_s b) (el_increment_s (pb_element_list b ! i)))
                        (el_increment_s element),
                    pb_element_list := (pb_element_list b)[i := element]\<rparr>)))"

text \<open>\<open>PulseBlock.delete_element\<close>.\<close>

definition delete_element :: "int \<Rightarrow> 'sf block \<Rightarrow> (py_error + int) \<times> 'sf block" where
  "delete_element position b =
     (if int (length (pb_element_list b)) \<le> position then (Inr (- 1), b)
      else (case py_index (length (pb_element_list b)) position of
              None \<Rightarrow> (Inl IndexError, b)
            | Some i \<Rightarrow>
                (let b1 = b\<lparr>pb_init_length_s :=
                               fsub (pb_init_length_s b)
                                 (el_init_length_s (pb_element_list b ! i)),
                             pb_increment_s :=
                               fsub (pb_increment_s b)
                                 (el_increment_s (pb_element_list b ! i)),
                             pb_element_list := py_del i (pb_element_list b)\<rparr>
                 in if length (pb_element_list b1) = 0
                    then (Inr 0, b1\<lparr>pb_init_length_s := Finite 0, pb_increment_s := Finite 0\<rparr>)
                    else (Inr 0, b1))))"

text \<open>\<open>PulseBlock.insert_element\<close>.\<close>

definition insert_element ::
  "int \<Rightarrow> 'sf element \<Rightarrow> 'sf block \<Rightarrow> (py_error + int) \<times> 'sf block" where
  "insert_element position element b =
     (if int (length (pb_element_list b)) < position then (Inr (- 1), b)
      else if pb_channel_set b = {} then
        (let b1 = b\<lparr>pb_channel_set := el_channel_set element,
                     pb_analog_channels :=
                       {chnl \<in> el_channel_set element. startswith chnl ''a''},
                     pb_digital_channels :=
                       {chnl \<in> el_channel_set element. startswith chnl ''d''}\<rparr>
         in (Inr 0,
             b1\<lparr>pb_init_length_s := fadd (pb_init_length_s b1) (el_init_length_s element),
                pb_increment_s := fadd (pb_increment_s b1) (el_increment_s element),
                pb_element_list := py_insert position element (pb_element_list b1)\<rparr>))
      else if el_channel_set element \<noteq> pb_channel_set b then (Inl ValueError, b)
      else
        (Inr 0,
         b\<lparr>pb_init_length_s := fadd (pb_init_length_s b) (el_init_length_s element),
            pb_increment_s := fadd (pb_increment_s b) (el_increment_s element),
            pb_element_list := py_insert position element (pb_element_list b)\<rparr>))"

text \<open>\<open>PulseBlock.append_element\<close>.\<close>

definition append_element ::
  "'sf element \<Rightarrow> bool \<Rightarrow> 'sf block \<Rightarrow> (py_error + int) \<times> 'sf block" where
  "append_element element at_beginning b =
     insert_element (if at_beginning then 0 else int (length (pb_element_list b))) element b"

subsection \<open>PulseBlockEnsemble\<close>

text \<open>
  A step of a block list or an ensemble list is a Python pair. The insert and replace
  methods store tuples, whose items Python does not allow to be assigned; a list handed
  to the constructor may also hold two-element lists, whose items can be assigned.
\<close>

datatype 'p step = PyTuple string 'p | PyList string 'p

fun step_name :: "'p step \<Rightarrow> string" where
  "step_name (PyTuple n p) = n"
| "step_name (PyList n p) = n"

fun step_param :: "'p step \<Rightarrow> 'p" where
  "step_param (PyTuple n p) = p"
| "step_param (PyList n p) = p"

text \<open>\<open>step[0] = name\<close>.\<close>

fun set_step_name :: "'p step \<Rightarrow> string \<Rightarrow> py_error + 'p step" where
  "set_step_name (PyTuple n p) name = Inl TypeError"
| "set_step_name (PyList n p) name = Inr (PyList name p)"

record 'v ensemble =
  pe_name :: string
  pe_rotating_frame :: bool
  pe_block_list :: "int step list"
  pe_sampling_information :: "'v py_dict"
  pe_measurement_information :: "'v py_dict"

text \<open>
  \<open>PulseBlockEnsemble.__init__\<close>: an argument that is not a list (\<open>None\<close> here) gives an
  empty block list.
\<close>

definition PulseBlockEnsemble :: "string \<Rightarrow> int step list option \<Rightarrow> bool \<Rightarrow> 'v ensemble" where
  "PulseBlockEnsemble name block_list rotating_frame =
     \<lparr>pe_name = name,
      pe_rotating_frame = rotating_frame,
      pe_block_list = (case block_list of None \<Rightarrow> [] | Some l \<Rightarrow> l),
      pe_sampling_information = [],
      pe_measurement_information = []\<rparr>"

text \<open>\<open>PulseBlockEnsemble.replace_block\<close>; \<open>reps\<close> defaults to \<open>None\<close>.\<close>

definition replace_block ::
  "int \<Rightarrow> string \<Rightarrow> int option \<Rightarrow> 'v ensemble \<Rightarrow> (py_error + int) \<times> 'v ensemble" where
  "replace_block position block_name reps s =
     (if int (length (pe_block_list s)) \<le> position then (Inr (- 1), s)
      else (case reps of
              None \<Rightarrow>
                (case py_index (length (pe_block_list s)) position of
                   None \<Rightarrow> (Inl IndexError, s)
                 | Some i \<Rightarrow>
                     (case set_step_name (pe_block_list s ! i) block_name of
                        Inl e \<Rightarrow> (Inl e, s)
                      | Inr st \<Rightarrow> (Inr 0, s\<lparr>pe_block_list := (pe_block_list s)[i := st]\<rparr>)))
            | Some r \<Rightarrow>
                if r \<ge> 0 then
                  (case py_index (length (pe_block_list s)) position of
                     None \<Rightarrow> (Inl IndexError, s)
                   | Some i \<Rightarrow>
                       (Inr 0,
                        s\<lparr>pe_block_list := (pe_block_list s)[i := PyTuple block_name r]\<rparr>))
                else (Inr (- 1), s)))"

text \<open>\<open>PulseBlockEnsemble.delete_block\<close>.\<close>

definition delete_block :: "int \<Rightarrow> 'v ensemble \<Rightarrow> (py_error + int) \<times> 'v ensemble" where
  "delete_block position s =
     (if int (length (pe_block_list s)) \<le> position then (Inr (- 1), s)
      else (case py_index (length (pe_block_list s)) position of
              None \<Rightarrow> (Inl IndexError, s)
            | Some i \<Rightarrow> (Inr 0, s\<lparr>pe_block_list := py_del i (pe_block_list s)\<rparr>)))"

text \<open>\<open>PulseBlockEnsemble.insert_block\<close>; \<open>reps\<close> defaults to 0 in the source.\<close>

definition insert_block ::
  "int \<Rightarrow> string \<Rightarrow> int \<Rightarrow> 'v ensemble \<Rightarrow> (py_error + int) \<times> 'v ensemble" where
  "insert_block position block_name reps s =
     (if int (length (pe_block_list s)) < position \<or> reps < 0 then (Inr (- 1), s)
      else (Inr 0,
            s\<lparr>pe_block_list := py_insert position (PyTuple block_name reps) (pe_block_list s)\<rparr>))"

text \<open>\<open>PulseBlockEnsemble.append_block\<close>.\<close>

definition append_block ::
  "string \<Rightarrow> int \<Rightarrow> bool \<Rightarrow> 'v ensemble \<Rightarrow> (py_error + int) \<times> 'v ensemble" where
  "append_block block_name reps at_beginning s =
     insert_block (if at_beginning then 0 else int (length (pe_block_list s))) block_name reps s"

subsection \<open>PulseSequence\<close>

text \<open>
  The parameters of a sequence step are a dict (\<open>repetitions\<close>, \<open>go_to\<close>,
  \<open>event_jump_to\<close>) with integer values; \<open>seq_param.copy()\<close> is the identity on values.
\<close>

type_synonym seq_param = "int py_dict"

record 'v pulse_sequence =
  ps_name :: string
  ps_rotating_frame :: bool
  ps_ensemble_list :: "seq_param step list"
  ps_is_finite :: bool
  ps_sampling_information :: "'v py_dict"
  ps_measurement_information :: "'v py_dict"

text \<open>
  The loop of \<open>PulseSequence.refresh_parameters\<close>, entered with \<open>is_finite = True\<close>: it
  stops at the first step with negative repetitions and raises KeyError at a step
  without the key.
\<close>

fun finite_loop :: "seq_param step list \<Rightarrow> py_error + bool" where
  "finite_loop [] = Inr True"
| "finite_loop (st # rest) =
     (case get_item (step_param st) ''repetitions'' of
        Inl e \<Rightarrow> Inl e
      | Inr r \<Rightarrow> if r < 0 then Inr False else finite_loop rest)"

definition seq_refresh_parameters ::
  "'v pulse_sequence \<Rightarrow> (py_error + unit) \<times> 'v pulse_sequence" where
  "seq_refresh_parameters s =
     (case finite_loop (ps_ensemble_list s) of
        Inl e \<Rightarrow> (Inl e, s\<lparr>ps_is_finite := True\<rparr>)
      | Inr f \<Rightarrow> (Inr (), s\<lparr>ps_is_finite := f\<rparr>))"

text \<open>\<open>PulseSequence.__init__\<close>: no object exists when \<open>refresh_parameters\<close> raises.\<close>

definition PulseSequence ::
  "string \<Rightarrow> seq_param step list option \<Rightarrow> bool \<Rightarrow> py_error + 'v pulse_sequence" where
  "PulseSequence name ensemble_list rotating_frame =
     (case seq_refresh_parameters
             \<lparr>ps_name = name,
              ps_rotating_frame = rotating_frame,
              ps_ensemble_list = (case ensemble_list of None \<Rightarrow> [] | Some l \<Rightarrow> l),
              ps_is_finite = True,
              ps_sampling_information = [],
              ps_measurement_information = []\<rparr> of
        (Inl e, s) \<Rightarrow> Inl e
      | (Inr u, s) \<Rightarrow> Inr s)"

text \<open>\<open>PulseSequence.replace_ensemble\<close>; \<open>seq_param\<close> defaults to \<open>None\<close>.\<close>

definition replace_ensemble ::
  "int \<Rightarrow> string \<Rightarrow> seq_param option \<Rightarrow> 'v pulse_sequence
     \<Rightarrow> (py_error + int) \<times> 'v pulse_sequence" where
  "replace_ensemble position ensemble_name seq_param s =
     (if int (length (ps_ensemble_list s)) \<le> position then (Inr (- 1), s)
      else (case py_index (length (ps_ensemble_list s)) position of
              None \<Rightarrow> (Inl IndexError, s)
            | Some i \<Rightarrow>
                (case seq_param of
                   None \<Rightarrow>
                     (case set_step_name (ps_ensemble_list s ! i) ensemble_name of
                        Inl e \<Rightarrow> (Inl e, s)
                      | Inr st \<Rightarrow>
                          (Inr 0, s\<lparr>ps_ensemble_list := (ps_ensemble_list s)[i := st]\<rparr>))
                 | Some p \<Rightarrow>
                     (let s1 = s\<lparr>ps_ensemble_list :=
                                    (ps_ensemble_list s)[i := PyTuple ensemble_name p]\<rparr>
                      in case get_item p ''repetitions'' of
                           Inl e \<Rightarrow> (Inl e, s1)
                         | Inr r \<Rightarrow>
                             if r < 0 \<and> ps_is_finite s1 then
                               (Inr 0, s1\<lparr>ps_is_finite := False\<rparr>)
                             else if r \<ge> 0 \<and> \<not> ps_is_finite s1 then
                               (case seq_refresh_parameters s1 of
                                  (Inl e, s2) \<Rightarrow> (Inl e, s2)
                                | (Inr u, s2) \<Rightarrow> (Inr 0, s2))
                             else (Inr 0, s1)))))"

text \<open>\<open>PulseSequence.delete_ensemble\<close>.\<close>

definition delete_ensemble ::
  "int \<Rightarrow> 'v pulse_sequence \<Rightarrow> (py_error + int) \<times> 'v pulse_sequence" where
  "delete_ensemble position s =
     (if int (length (ps_ensemble_list s)) \<le> position then (Inr (- 1), s)
      else (case py_index (length (ps_ensemble_list s)) position of
              None \<Rightarrow> (Inl IndexError, s)
            | Some i \<Rightarrow>
                (case get_item (step_param (ps_ensemble_list s ! i)) ''repetitions'' of
                   Inl e \<Rightarrow> (Inl e, s)
                 | Inr r \<Rightarrow>
                     (let refresh = (if r < 0 then True else False);
                          s1 = s\<lparr>ps_ensemble_list := py_del i (ps_ensemble_list s)\<rparr>
                      in if refresh then
                           (case seq_refresh_parameters s1 of
                              (Inl e, s2) \<Rightarrow> (Inl e, s2)
                            | (Inr u, s2) \<Rightarrow> (Inr 0, s2))
                         else (Inr 0, s1)))))"

text \<open>\<open>PulseSequence.insert_ensemble\<close>: the step is inserted before the key is read.\<close>

definition insert_ensemble ::
  "int \<Rightarrow> string \<Rightarrow> seq_param \<Rightarrow> 'v pulse_sequence
     \<Rightarrow> (py_error + int) \<times> 'v pulse_sequence" where
  "insert_ensemble position ensemble_name seq_param s =
     (if int (length (ps_ensemble_list s)) < position then (Inr (- 1), s)
      else (let s1 = s\<lparr>ps_ensemble_list :=
                         py_insert position (PyTuple ensemble_name seq_param)
                           (ps_ensemble_list s)\<rparr>
            in case get_item seq_param ''repetitions'' of
                 Inl e \<Rightarrow> (Inl e, s1)
               | Inr r \<Rightarrow>
                   if r < 0 then (Inr 0, s1\<lparr>ps_is_finite := False\<rparr>) else (Inr 0, s1)))"

text \<open>\<open>PulseSequence.append_ensemble\<close>.\<close>

definition append_ensemble ::
  "string \<Rightarrow> seq_param \<Rightarrow> bool \<Rightarrow> 'v pulse_sequence
     \<Rightarrow> (py_error + int) \<times> 'v pulse_sequence" where
  "append_ensemble ensemble_name seq_param at_beginning s =
     insert_ensemble (if at_beginning then 0 else int (length (ps_ensemble_list s)))
       ensemble_name seq_param s"

subsection \<open>Dictionary representations\<close>

text \<open>
  Modelled from the spec: the sampling functions of \<open>logic.pulsed.sampling_functions\<close>
  are not part of this file. A sampling-function object is an opaque value of type
  \<open>'sf\<close>; its own \<open>get_dict_representation\<close> gives a record \<open>{name, params}\<close>, and
  \<open>getattr(sf, name)\<close> finds the class that builds the object from the parameters.
  Subscripting such an object (\<open>obj['name']\<close>) raises TypeError.
\<close>

record sf_dict =
  sd_name :: string
  sd_params :: "pyfloat py_dict"

type_synonym 'sf sf_catalog = "string \<Rightarrow> (pyfloat py_dict \<Rightarrow> py_error + 'sf) option"

text \<open>\<open>getattr(sf, sample_dict['name'])(**sample_dict['params'])\<close>.\<close>

definition construct_sf :: "'sf sf_catalog \<Rightarrow> sf_dict \<Rightarrow> py_error + 'sf" where
  "construct_sf sf sample_dict =
     (case sf (sd_name sample_dict) of
        None \<Rightarrow> Inl AttributeError
      | Some sf_class \<Rightarrow> sf_class (sd_params sample_dict))"

text \<open>
  An entry of \<open>element_dict['pulse_function']\<close>: the record of a sampling function, or,
  once \<open>element_from_dict\<close> has written it back, the object itself.
\<close>

datatype 'sf pf_entry = SFDict sf_dict | SFObj 'sf

record 'sf element_dict =
  ed_init_length_s :: pyfloat
  ed_increment_s :: pyfloat
  ed_digital_high :: "bool py_dict"
  ed_pulse_function :: "'sf pf_entry py_dict"

text \<open>\<open>PulseBlockElement.get_dict_representation\<close>.\<close>

definition element_get_dict_representation ::
  "('sf \<Rightarrow> sf_dict) \<Rightarrow> 'sf element \<Rightarrow> 'sf element_dict" where
  "element_get_dict_representation func_dict e =
     \<lparr>ed_init_length_s = el_init_length_s e,
      ed_increment_s = el_increment_s e,
      ed_digital_high = el_digital_high e,
      ed_pulse_function =
        map (\<lambda>(chnl, func). (chnl, SFDict (func_dict func))) (el_pulse_function e)\<rparr>"

text \<open>
  The loop of \<open>element_from_dict\<close> over the items of \<open>element_dict['pulse_function']\<close>:
  each entry is overwritten in the dict that was passed in. The result is the dict of
  the constructed objects, next to the entries as the loop leaves them.
\<close>

fun from_dict_loop ::
  "'sf sf_catalog \<Rightarrow> 'sf pf_entry py_dict \<Rightarrow> (py_error + 'sf py_dict) \<times> 'sf pf_entry py_dict" where
  "from_dict_loop sf [] = (Inr [], [])"
| "from_dict_loop sf ((chnl, SFObj obj) # rest) = (Inl TypeError, (chnl, SFObj obj) # rest)"
| "from_dict_loop sf ((chnl, SFDict sample_dict) # rest) =
     (case construct_sf sf sample_dict of
        Inl e \<Rightarrow> (Inl e, (chnl, SFDict sample_dict) # rest)
      | Inr obj \<Rightarrow>
          (case from_dict_loop sf rest of
             (Inl e, rest1) \<Rightarrow> (Inl e, (chnl, SFObj obj) # rest1)
           | (Inr objs, rest1) \<Rightarrow> (Inr ((chnl, obj) # objs), (chnl, SFObj obj) # rest1)))"

text \<open>
  \<open>PulseBlockElement.element_from_dict\<close>: the element, and the caller's record after
  the call.
\<close>

definition element_from_dict ::
  "'sf sf_catalog \<Rightarrow> 'sf element_dict \<Rightarrow> (py_error + 'sf element) \<times> 'sf element_dict" where
  "element_from_dict sf element_dict =
     (case from_dict_loop sf (ed_pulse_function element_dict) of
        (Inl e, pf) \<Rightarrow> (Inl e, element_dict\<lparr>ed_pulse_function := pf\<rparr>)
      | (Inr objs, pf) \<Rightarrow>
          (Inr (PulseBlockElement (ed_init_length_s element_dict) (ed_increment_s element_dict)
                  (Some objs) (Some (ed_digital_high element_dict))),
           element_dict\<lparr>ed_pulse_function := pf\<rparr>))"

text \<open>
  An entry of \<open>block_dict['element_list']\<close>: the record of an element, or, once
  \<open>block_from_dict\<close> has written it back, the element. A \<open>PulseBlockElement\<close> has no
  \<open>__getitem__\<close>, so \<open>element_dict['pulse_function']\<close> raises TypeError on it.
\<close>

datatype 'sf el_entry = ElDict "'sf element_dict" | ElObj "'sf element"

record 'sf block_dict =
  bd_name :: string
  bd_element_list :: "'sf el_entry list"

text \<open>\<open>PulseBlock.get_dict_representation\<close>.\<close>

definition block_get_dict_representation ::
  "('sf \<Rightarrow> sf_dict) \<Rightarrow> 'sf block \<Rightarrow> 'sf block_dict" where
  "block_get_dict_representation func_dict b =
     \<lparr>bd_name = pb_name b,
      bd_element_list =
        map (\<lambda>element. ElDict (element_get_dict_representation func_dict element))
          (pb_element_list b)\<rparr>"

text \<open>The loop of \<open>block_from_dict\<close> over \<open>enumerate(block_dict['element_list'])\<close>.\<close>

fun block_from_dict_loop ::
  "'sf sf_catalog \<Rightarrow> 'sf el_entry list \<Rightarrow> (py_error + 'sf element list) \<times> 'sf el_entry list" where
  "block_from_dict_loop sf [] = (Inr [], [])"
| "block_from_dict_loop sf (ElObj element # rest) = (Inl TypeError, ElObj element # rest)"
| "block_from_dict_loop sf (ElDict element_dict # rest) =
     (case element_from_dict sf element_dict of
        (Inl e, d1) \<Rightarrow> (Inl e, ElDict d1 # rest)
      | (Inr element, d1) \<Rightarrow>
          (case block_from_dict_loop sf rest of
             (Inl e, rest1) \<Rightarrow> (Inl e, ElObj element # rest1)
           | (Inr elements, rest1) \<Rightarrow> (Inr (element # elements), ElObj element # rest1)))"

text \<open>\<open>PulseBlock.block_from_dict\<close>: the block, and the caller's record after the call.\<close>

definition block_from_dict ::
  "'sf sf_catalog \<Rightarrow> 'sf block_dict \<Rightarrow> (py_error + 'sf block) \<times> 'sf block_dict" where
  "block_from_dict sf block_dict =
     (case block_from_dict_loop sf (bd_element_list block_dict) of
        (Inl e, l) \<Rightarrow> (Inl e, block_dict\<lparr>bd_element_list := l\<rparr>)
      | (Inr elements, l) \<Rightarrow>
          (PulseBlock (bd_name block_dict) (Some elements),
           block_dict\<lparr>bd_element_list := l\<rparr>))"

record 'v ensemble_dict =
  end_name :: string
  end_rotating_frame :: bool
  end_block_list :: "int step list"
  end_sampling_information :: "'v py_dict"
  end_measurement_information :: "'v py_dict"

text \<open>\<open>PulseBlockEnsemble.get_dict_representation\<close>.\<close>

definition ensemble_get_dict_representation :: "'v ensemble \<Rightarrow> 'v ensemble_dict" where
  "ensemble_get_dict_representation s =
     \<lparr>end_name = pe_name s,
      end_rotating_frame = pe_rotating_frame s,
      end_block_list = pe_block_list s,
      end_sampling_information = pe_sampling_information s,
      end_measurement_information = pe_measurement_information s\<rparr>"

text \<open>\<open>PulseBlockEnsemble.ensemble_from_dict\<close>.\<close>

definition ensemble_from_dict :: "'v ensemble_dict \<Rightarrow> 'v ensemble" where
  "ensemble_from_dict ensemble_dict =
     (let new_ens = PulseBlockEnsemble (end_name ensemble_dict)
                      (Some (end_block_list ensemble_dict)) (end_rotating_frame ensemble_dict)
      in new_ens\<lparr>pe_sampling_information := end_sampling_information ensemble_dict,
                 pe_measurement_information := end_measurement_information ensemble_dict\<rparr>)"

record 'v sequence_dict =
  sqd_name :: string
  sqd_rotating_frame :: bool
  sqd_ensemble_list :: "seq_param step list"
  sqd_sampling_information :: "'v py_dict"
  sqd_measurement_information :: "'v py_dict"

text \<open>\<open>PulseSequence.get_dict_representation\<close>.\<close>

definition sequence_get_dict_representation :: "'v pulse_sequence \<Rightarrow> 'v sequence_dict" where
  "sequence_get_dict_representation s =
     \<lparr>sqd_name = ps_name s,
      sqd_rotating_frame = ps_rotating_frame s,
      sqd_ensemble_list = ps_ensemble_list s,
      sqd_sampling_information = ps_sampling_information s,
      sqd_measurement_information = ps_measurement_information s\<rparr>"

text \<open>\<open>PulseSequence.sequence_from_dict\<close>.\<close>

definition sequence_from_dict :: "'v sequence_dict \<Rightarrow> py_error + 'v pulse_sequence" where
  "sequence_from_dict sequence_dict =
     (case PulseSequence (sqd_name sequence_dict) (Some (sqd_ensemble_list sequence_dict))
             (sqd_rotating_frame sequence_dict) of
        Inl e \<Rightarrow> Inl e
      | Inr new_seq \<Rightarrow>
          Inr (new_seq\<lparr>ps_sampling_information := sqd_sampling_information sequence_dict,
                       ps_measurement_information :=
                         sqd_measurement_information sequence_dict\<rparr>))"

subsection \<open>PredefinedGeneratorBase\<close>

text \<open>
  The entries of the logic module's \<open>generation_parameters\<close> dict that
  \<open>_get_ensemble_count_length\<close> reads with \<open>.get\<close>; \<open>None\<close> is a missing entry.
\<close>

record generation_parameters =
  gp_gate_channel :: "string option"
  gp_laser_length :: "pyfloat option"
  gp_laser_delay :: "pyfloat option"

text \<open>The property \<open>gate_channel\<close>.\<close>

definition gate_channel :: "generation_parameters \<Rightarrow> string option" where
  "gate_channel gp =
     (case gp_gate_channel gp of
        None \<Rightarrow> None
      | Some channel \<Rightarrow> if channel = [] then None else Some channel)"

text \<open>The truth value of \<open>self.gate_channel\<close> in a condition.\<close>

definition gate_channel_set :: "generation_parameters \<Rightarrow> bool" where
  "gate_channel_set gp = (case gate_channel gp of None \<Rightarrow> False | Some channel \<Rightarrow> channel \<noteq> [])"

text \<open>\<open>{block.name: block for block in created_blocks}\<close>: a later block replaces an earlier one of its name.\<close>

definition blocks_by_name :: "'sf block list \<Rightarrow> string \<Rightarrow> 'sf block option" where
  "blocks_by_name created_blocks =
     fold (\<lambda>block blocks. blocks(pb_name block \<mapsto> block)) created_blocks Map.empty"

text \<open>
  The loop of \<open>_get_ensemble_count_length\<close>. In \<open>init_length_s * (reps + 1)\<close> the
  integer is converted to a float, and \<open>(reps ** 2 + reps) / 2\<close> is a true division of
  integers; both raise OverflowError on an integer too large for a float.
\<close>

fun count_length_loop ::
  "(string \<Rightarrow> 'sf block option) \<Rightarrow> int step list \<Rightarrow> pyfloat \<Rightarrow> py_error + pyfloat" where
  "count_length_loop blocks [] len = Inr len"
| "count_length_loop blocks (st # rest) len =
     (case blocks (step_name st) of
        None \<Rightarrow> Inl KeyError
      | Some block \<Rightarrow>
          (case float_of_int (step_param st + 1) of
             Inl e \<Rightarrow> Inl e
           | Inr plays \<Rightarrow>
               (case int_true_divide ((step_param st)\<^sup>2 + step_param st) 2 of
                  Inl e \<Rightarrow> Inl e
                | Inr increments \<Rightarrow>
                    count_length_loop blocks rest
                      (fadd (fadd len (fmul (pb_init_length_s block) plays))
                         (fmul (pb_increment_s block) increments)))))"

text \<open>\<open>PredefinedGeneratorBase._get_ensemble_count_length\<close>.\<close>

definition get_ensemble_count_length ::
  "generation_parameters \<Rightarrow> 'v ensemble \<Rightarrow> 'sf block list \<Rightarrow> py_error + pyfloat" where
  "get_ensemble_count_length gp ensemble created_blocks =
     (if gate_channel_set gp then
        (case (gp_laser_length gp, gp_laser_delay gp) of
           (Some laser_length, Some laser_delay) \<Rightarrow> Inr (fadd laser_length laser_delay)
         | _ \<Rightarrow> Inl TypeError)
      else
        count_length_loop (blocks_by_name created_blocks) (pe_block_list ensemble) (Finite 0))"

text \<open>
  The sum that the loop accumulates when nothing raises: for every step in turn the
  rounded product of the duration with \<open>reps + 1\<close> and then the rounded product of the
  increment with \<open>(reps\<^sup>2 + reps) / 2\<close>, each added with rounding.
\<close>

definition add_step_length :: "(string \<Rightarrow> 'sf block) \<Rightarrow> pyfloat \<Rightarrow> int step \<Rightarrow> pyfloat" where
  "add_step_length block len st =
     fadd (fadd len (fmul (pb_init_length_s (block (step_name st)))
                       (round_double (of_int (step_param st + 1)))))
       (fmul (pb_increment_s (block (step_name st)))
          (round_double (of_int ((step_param st)\<^sup>2 + step_param st) / 2)))"

text \<open>A step whose repetitions are too large for the two conversions.\<close>

definition step_overflows :: "int step \<Rightarrow> bool" where
  "step_overflows st =
     (overflows (of_int (step_param st + 1))
      \<or> overflows (of_int ((step_param st)\<^sup>2 + step_param st) / 2))"

subsection \<open>PulseObjectGenerator\<close>

text \<open>
  An instance of a generator class is seen through \<open>inspect.getmembers(instance,
  inspect.ismethod)\<close>: the pairs of a method name and the bound method, in the order
  \<open>inspect\<close> lists them. The type \<open>'m\<close> is the type of bound methods.
\<close>

type_synonym 'm generator_instance = "(string \<times> 'm) list"

text \<open>
  \<open>PulseObjectGenerator.__populate_method_dict\<close>: the body of the inner loop, and the
  two loops over a dict that starts empty. \<open>method_name[9:]\<close> drops the prefix.
\<close>

definition register_method ::
  "string \<times> 'm \<Rightarrow> (string \<Rightarrow> 'm option) \<Rightarrow> (string \<Rightarrow> 'm option)" where
  "register_method member generate_methods =
     (case member of
        (method_name, method_ref) \<Rightarrow>
          if startswith method_name ''generate_''
          then generate_methods(drop 9 method_name \<mapsto> method_ref)
          else generate_methods)"

definition populate_method_dict :: "'m generator_instance list \<Rightarrow> string \<Rightarrow> 'm option" where
  "populate_method_dict instance_list =
     fold (\<lambda>instance generate_methods. fold register_method instance generate_methods)
       instance_list Map.empty"

text \<open>
  A candidate object met in a generator module: a class, with the tuple \<open>__bases__\<close> of
  its direct base classes and the methods an instance of it has, or anything else.
\<close>

datatype class_ref = PredefinedGeneratorBase | OtherClass string

datatype 'm py_object = PyClass string "class_ref list" "'m generator_instance" | PyOther

text \<open>\<open>PulseObjectGenerator.is_generator_class\<close>.\<close>

fun is_generator_class :: "'m py_object \<Rightarrow> bool" where
  "is_generator_class (PyClass name bases methods) =
     (PredefinedGeneratorBase \<in> set bases \<and> length bases = 1)"
| "is_generator_class PyOther = False"

text \<open>The instance \<open>cls(sequencegeneratorlogic)\<close> of a class, as its bound methods.\<close>

fun instance_of :: "'m py_object \<Rightarrow> 'm generator_instance" where
  "instance_of (PyClass name bases methods) = methods"
| "instance_of PyOther = []"

text \<open>
  \<open>PulseObjectGenerator.__import_external_generators\<close>. Each path is given by the
  modules found in it, \<open>None\<close> when the path does not exist (it is logged and skipped),
  and each module by the objects \<open>inspect.getmembers\<close> lists in it.
\<close>

definition import_external_generators :: "'m py_object list list option list \<Rightarrow> 'm py_object list" where
  "import_external_generators paths =
     concat (map (\<lambda>path. case path of
                           None \<Rightarrow> []
                         | Some module_list \<Rightarrow>
                             concat (map (\<lambda>module_members. filter is_generator_class module_members)
                                       module_list))
                 paths)"

text \<open>
  The part of \<open>PulseObjectGenerator.__init__\<close> that builds \<open>_generate_methods\<close>: the
  classes are imported, instantiated and harvested.
\<close>

definition predefined_generate_methods :: "'m py_object list list option list \<Rightarrow> string \<Rightarrow> 'm option" where
  "predefined_generate_methods paths =
     populate_method_dict (map instance_of (import_external_generators paths))"

subsection \<open>Objects built by the editing methods\<close>

text \<open>
  The ensembles and sequences whose step list was built by the insert and append
  methods alone, starting from a new object without steps.
\<close>

inductive built_ensemble :: "'v ensemble \<Rightarrow> bool" where
  built_ensemble_new: "built_ensemble (PulseBlockEnsemble name None rotating_frame)"
| built_ensemble_insert:
    "built_ensemble s \<Longrightarrow> insert_block position block_name reps s = (r, s1) \<Longrightarrow> built_ensemble s1"
| built_ensemble_append:
    "built_ensemble s \<Longrightarrow> append_block block_name reps at_beginning s = (r, s1)
       \<Longrightarrow> built_ensemble s1"

inductive built_sequence :: "'v pulse_sequence \<Rightarrow> bool" where
  built_sequence_new: "PulseSequence name None rotating_frame = Inr s \<Longrightarrow> built_sequence s"
| built_sequence_insert:
    "built_sequence s \<Longrightarrow> insert_ensemble position ensemble_name seq_param s = (r, s1)
       \<Longrightarrow> built_sequence s1"
| built_sequence_append:
    "built_sequence s \<Longrightarrow> append_ensemble ensemble_name seq_param at_beginning s = (r, s1)
       \<Longrightarrow> built_sequence s1"


text \<open>
  The blocks built from a new block without elements by \<open>append_element\<close> at the end
  alone.
\<close>

inductive appended_block :: "'sf block \<Rightarrow> bool" where
  appended_block_new: "PulseBlock name None = Inr b \<Longrightarrow> appended_block b"
| appended_block_append:
    "appended_block b \<Longrightarrow> append_element element False b = (r, b1) \<Longrightarrow> appended_block b1"

text \<open>
  The stored totals of a block are the float sums over its elements, taken in the
  order of the list.
\<close>

definition totals_ok :: "'sf block \<Rightarrow> bool" where
  "totals_ok b =
     (pb_init_length_s b = float_sum (map el_init_length_s (pb_element_list b))
      \<and> pb_increment_s b = float_sum (map el_increment_s (pb_element_list b)))"


text \<open>A step-parameter dict that has the key \<open>repetitions\<close>.\<close>

definition has_repetitions :: "seq_param \<Rightarrow> bool" where
  "has_repetitions p = (map_of p ''repetitions'' \<noteq> None)"

text \<open>A step-parameter dict whose \<open>repetitions\<close> are negative.\<close>

definition negative_repetitions :: "seq_param \<Rightarrow> bool" where
  "negative_repetitions p =
     (case map_of p ''repetitions'' of None \<Rightarrow> False | Some r \<Rightarrow> r < 0)"

text \<open>
  Every step has the key, and the flag \<open>is_finite\<close> is set exactly when no step has
  negative repetitions.
\<close>

definition finite_ok :: "'v pulse_sequence \<Rightarrow> bool" where
  "finite_ok s =
     ((\<forall>st \<in> set (ps_ensemble_list s). has_repetitions (step_param st))
      \<and> (ps_is_finite s \<longleftrightarrow> \<not> (\<exists>st \<in> set (ps_ensemble_list s). negative_repetitions (step_param st))))"

text \<open>
  The sequences reached from construction by calls of the four editing methods, where
  every step-parameter dict handed to the constructor or to a method has the key
  \<open>repetitions\<close>.
\<close>

inductive reachable_sequence :: "'v pulse_sequence \<Rightarrow> bool" where
  reachable_sequence_new:
    "list_all (\<lambda>st. has_repetitions (step_param st)) (case ensemble_list of None \<Rightarrow> [] | Some l \<Rightarrow> l)
       \<Longrightarrow> PulseSequence name ensemble_list rotating_frame = Inr s \<Longrightarrow> reachable_sequence s"
| reachable_sequence_insert:
    "reachable_sequence s \<Longrightarrow> has_repetitions seq_param
       \<Longrightarrow> insert_ensemble position ensemble_name seq_param s = (r, s1)
       \<Longrightarrow> reachable_sequence s1"
| reachable_sequence_append:
    "reachable_sequence s \<Longrightarrow> has_repetitions seq_param
       \<Longrightarrow> append_ensemble ensemble_name seq_param at_beginning s = (r, s1)
       \<Longrightarrow> reachable_sequence s1"
| reachable_sequence_replace:
    "reachable_sequence s \<Longrightarrow> has_repetitions seq_param
       \<Longrightarrow> replace_ensemble position ensemble_name (Some seq_param) s = (r, s1)
       \<Longrightarrow> reachable_sequence s1"
| reachable_sequence_rename:
    "reachable_sequence s \<Longrightarrow> replace_ensemble position ensemble_name None s = (r, s1)
       \<Longrightarrow> reachable_sequence s1"
| reachable_sequence_delete:
    "reachable_sequence s \<Longrightarrow> delete_ensemble position s = (r, s1) \<Longrightarrow> reachable_sequence s1"

subsection \<open>Objects whose derived fields agree with their contents\<close>

text \<open>The channel sets of an element are the keys of its two dicts.\<close>

definition element_consistent :: "'sf element \<Rightarrow> bool" where
  "element_consistent e =
     (el_analog_channels e = set (map fst (el_pulse_function e))
      \<and> el_digital_channels e = set (map fst (el_digital_high e))
      \<and> el_channel_set e = el_analog_channels e \<union> el_digital_channels e)"

text \<open>
  The elements of a block are consistent and have the channel set of the block, which
  is empty when there is no element; the analog and digital channels are the parts of
  the channel set; the totals are the float sums over the elements.
\<close>

definition block_consistent :: "'sf block \<Rightarrow> bool" where
  "block_consistent b =
     ((\<forall>e \<in> set (pb_element_list b).
          element_consistent e \<and> el_channel_set e = pb_channel_set b)
      \<and> (pb_element_list b = [] \<longrightarrow> pb_channel_set b = {})
      \<and> pb_analog_channels b = {chnl \<in> pb_channel_set b. startswith chnl ''a''}
      \<and> pb_digital_channels b = {chnl \<in> pb_channel_set b. startswith chnl ''d''}
      \<and> totals_ok b)"

subsection \<open>A catalog of sampling functions\<close>

text \<open>
  Modelled from the spec: three of the sampling functions this file constructs
  (\<open>sf.Idle()\<close>, \<open>sf.DC(voltage=...)\<close>, \<open>sf.Sin(amplitude=..., frequency=...,
  phase=...)\<close>), with the record each one gives and the class lookup by name. They
  serve as a concrete catalog for the examples.
\<close>

datatype waveform = Idle | DC pyfloat | Sin pyfloat pyfloat pyfloat

fun waveform_dict :: "waveform \<Rightarrow> sf_dict" where
  "waveform_dict Idle = \<lparr>sd_name = ''Idle'', sd_params = []\<rparr>"
| "waveform_dict (DC voltage) = \<lparr>sd_name = ''DC'', sd_params = [(''voltage'', voltage)]\<rparr>"
| "waveform_dict (Sin amplitude frequency phase) =
     \<lparr>sd_name = ''Sin'',
      sd_params = [(''amplitude'', amplitude), (''frequency'', frequency), (''phase'', phase)]\<rparr>"

text \<open>A class called with keyword arguments it does not declare raises TypeError.\<close>

definition waveform_catalog :: "waveform sf_catalog" where
  "waveform_catalog name =
     (if name = ''Idle'' then
        Some (\<lambda>params. if params = [] then Inr Idle else Inl TypeError)
      else if name = ''DC'' then
        Some (\<lambda>params. case params of
                          [(k, v)] \<Rightarrow> if k = ''voltage'' then Inr (DC v) else Inl TypeError
                        | _ \<Rightarrow> Inl TypeError)
      else if name = ''Sin'' then
        Some (\<lambda>params. case params of
                          [(k1, a), (k2, f), (k3, p)] \<Rightarrow>
                            if k1 = ''amplitude'' \<and> k2 = ''frequency'' \<and> k3 = ''phase''
                            then Inr (Sin a f p) else Inl TypeError
                        | _ \<Rightarrow> Inl TypeError)
      else None)"

section \<open>Properties\<close>

subsection \<open>Python lists\<close>

lemma py_index_nonneg: "0 \<le> i \<Longrightarrow> i < int n \<Longrightarrow> py_index n i = Some (nat i)"
  by (simp add: py_index_def)

lemma py_index_less: "py_index n i = Some j \<Longrightarrow> j < n"
  by (auto simp: py_index_def Let_def split: if_splits)

lemma set_py_insert: "set (py_insert i x xs) = insert x (set xs)"
proof -
  have "set (take n xs) \<union> set (drop n xs) = set xs" for n
    by (metis append_take_drop_id set_append)
  then show ?thesis by (auto simp: py_insert_def Let_def)
qed


lemma set_py_del: "set (py_del i xs) \<subseteq> set xs"
  by (auto simp: py_del_def dest: in_set_takeD in_set_dropD)

subsection \<open>Rounding\<close>

lemma pow2_power_int: "pow2 k = power_int 2 k"
  by (simp add: pow2_def power_int_def inverse_eq_divide power_one_over)

lemma pow2_pos: "0 < pow2 k"
  by (simp add: pow2_power_int)

lemma pow2_less: "i < j \<Longrightarrow> pow2 i < pow2 j"
  unfolding pow2_power_int by (rule power_int_strict_increasing) simp_all

lemma pow2_less_iff: "pow2 i < pow2 j \<longleftrightarrow> i < j"
proof
  assume a: "pow2 i < pow2 j"
  show "i < j"
  proof (rule ccontr)
    assume "\<not> i < j"
    then have "j = i \<or> j < i" by auto
    then have "pow2 j \<le> pow2 i" using pow2_less [of j i] by auto
    with a show False by simp
  qed
qed (rule pow2_less)

lemma pow2_nat: "0 \<le> k \<Longrightarrow> pow2 k = of_int (2 ^ nat k)"
  by (simp add: pow2_def)

lemma pow2_diff: "pow2 (i - j) = pow2 i / pow2 j"
proof -
  have "power_int (2 :: rat) (i - j) = power_int 2 i / power_int 2 j"
    by (simp add: power_int_diff)
  then show ?thesis by (simp add: pow2_power_int)
qed

lemma floor_log2_unique:
  assumes "pow2 e \<le> x" and "x < pow2 (e + 1)"
  shows "floor_log2 x = e"
proof -
  have xpos: "0 < x" using pow2_pos [of e] assms(1) by simp
  obtain a b where q: "quotient_of x = (a, b)" by (cases "quotient_of x")
  then have b: "0 < b" and x: "x = of_int a / of_int b"
    by (rule quotient_of_denom_pos, rule quotient_of_div)
  from xpos x b have a: "0 < a" by (simp add: zero_less_divide_iff)
  let ?la = "bitlen a" and ?lb = "bitlen b"
  from a b have la1: "1 \<le> ?la" and lb1: "1 \<le> ?lb"
    using bitlen_eq_zero_iff [of a] bitlen_eq_zero_iff [of b] bitlen_nonneg [of a] bitlen_nonneg [of b]
    by linarith+
  from bitlen_bounds [OF a] have "of_int (2 ^ nat (?la - 1)) \<le> (of_int a :: rat)"
    and "(of_int a :: rat) < of_int (2 ^ nat ?la)"
    by (simp_all only: of_int_le_iff of_int_less_iff)
  then have A: "pow2 (?la - 1) \<le> of_int a" "of_int a < pow2 ?la"
    using la1 by (simp_all add: pow2_nat)
  from bitlen_bounds [OF b] have "of_int (2 ^ nat (?lb - 1)) \<le> (of_int b :: rat)"
    and "(of_int b :: rat) < of_int (2 ^ nat ?lb)"
    by (simp_all only: of_int_le_iff of_int_less_iff)
  then have B: "pow2 (?lb - 1) \<le> of_int b" "of_int b < pow2 ?lb"
    using lb1 by (simp_all add: pow2_nat)
  let ?e0 = "?la - ?lb"
  have bpos: "(0 :: rat) < of_int b" using b by simp
  have lower: "pow2 (?e0 - 1) < x"
  proof -
    have "pow2 (?e0 - 1) * of_int b < pow2 (?e0 - 1) * pow2 ?lb"
      using B(2) pow2_pos by (simp add: mult_strict_left_mono)
    also have "\<dots> = pow2 (?la - 1)"
      using pow2_diff [of "?la - 1" ?lb] pow2_pos [of ?lb]
      by (simp add: field_simps)
    also have "\<dots> \<le> of_int a" by (rule A(1))
    finally show ?thesis using bpos by (simp add: x pos_less_divide_eq)
  qed
  have upper: "x < pow2 (?e0 + 1)"
  proof -
    have "of_int a < pow2 ?la" by (rule A(2))
    also have "\<dots> = pow2 (?e0 + 1) * pow2 (?lb - 1)"
      using pow2_diff [of ?la "?lb - 1"] pow2_pos [of "?lb - 1"]
      by (simp add: field_simps algebra_simps)
    also have "\<dots> \<le> pow2 (?e0 + 1) * of_int b"
      using B(1) pow2_pos [of "?e0 + 1"] by (simp add: mult_left_mono)
    finally show ?thesis using bpos by (simp add: x pos_divide_less_eq)
  qed
  have fl: "floor_log2 x = (if x < pow2 ?e0 then ?e0 - 1 else ?e0)"
    by (simp add: floor_log2_def q Let_def)
  show ?thesis
  proof (cases "x < pow2 ?e0")
    case True
    from assms(1) True have "pow2 e < pow2 ?e0" by simp
    then have 1: "e < ?e0" by (simp add: pow2_less_iff)
    from lower assms(2) have "pow2 (?e0 - 1) < pow2 (e + 1)" by simp
    then have "?e0 - 1 < e + 1" by (simp add: pow2_less_iff)
    with 1 True fl show ?thesis by simp
  next
    case False
    then have "pow2 ?e0 \<le> x" by simp
    with assms(2) have "pow2 ?e0 < pow2 (e + 1)" by simp
    then have 1: "?e0 < e + 1" by (simp add: pow2_less_iff)
    from assms(1) upper have "pow2 e < pow2 (?e0 + 1)" by simp
    then have "e < ?e0 + 1" by (simp add: pow2_less_iff)
    with 1 False fl show ?thesis by simp
  qed
qed

lemma round_double_pos:
  assumes "pow2 e \<le> x" and "x < pow2 (e + 1)"
    and "round_half_even (x / pow2 (max e (- 1022) - 52)) = n"
    and "of_int n * pow2 (max e (- 1022) - 52) < pow2 1024"
  shows "round_double x = Finite (of_int n * pow2 (max e (- 1022) - 52))"
proof -
  have xpos: "0 < x" using pow2_pos [of e] assms(1) by simp
  then have "floor_log2 \<bar>x\<bar> = e" using floor_log2_unique [OF assms(1,2)] by simp
  with xpos assms(3,4) show ?thesis
    by (simp add: round_double_def Let_def)
qed

lemma floor_rat_numeral:
  "\<lfloor>(numeral a :: rat) / numeral b\<rfloor> = numeral a div numeral b"
  by (metis floor_divide_of_int_eq of_int_numeral)

lemmas round_eval = pow2_def round_half_even_def Let_def floor_rat_numeral

lemma round_double_zero [simp]: "round_double 0 = Finite 0"
  by (simp add: round_double_def)

lemma round_double_one [simp]: "round_double 1 = Finite 1"
  by (rule round_double_pos [where e = 0 and n = "2 ^ 52", THEN trans])
     (simp_all add: round_eval)

lemma round_half_even_floor: "\<lfloor>y\<rfloor> \<le> round_half_even y"
  by (simp add: round_half_even_def Let_def)

lemma round_double_overflow:
  assumes "pow2 e \<le> x" and "x < pow2 (e + 1)" and "1024 \<le> e"
  shows "round_double x = PosInf"
proof -
  have xpos: "0 < x" using pow2_pos [of e] assms(1) by simp
  have fl: "floor_log2 \<bar>x\<bar> = e" using floor_log2_unique [OF assms(1,2)] xpos by simp
  let ?p = "e - 52"
  have p: "max e (- 1022) - 52 = ?p" using assms(3) by simp
  have "pow2 52 = pow2 e / pow2 ?p" using pow2_diff [of e ?p] by simp
  also have "\<dots> \<le> x / pow2 ?p" using assms(1) pow2_pos [of ?p] by (simp add: divide_right_mono)
  finally have "of_int (2 ^ 52) \<le> x / pow2 ?p" by (simp add: pow2_def)
  then have "2 ^ 52 \<le> \<lfloor>x / pow2 ?p\<rfloor>" by (simp only: le_floor_iff)
  with round_half_even_floor [of "x / pow2 ?p"] have "2 ^ 52 \<le> round_half_even (x / pow2 ?p)"
    by linarith
  then have "(of_int (2 ^ 52) :: rat) \<le> of_int (round_half_even (x / pow2 ?p))"
    by (simp only: of_int_le_iff)
  then have "pow2 52 \<le> of_int (round_half_even (x / pow2 ?p))" by (simp add: pow2_def)
  then have "pow2 52 * pow2 ?p \<le> of_int (round_half_even (x / pow2 ?p)) * pow2 ?p"
    using pow2_pos [of ?p] by (simp add: mult_right_mono)
  moreover have "pow2 52 * pow2 ?p = pow2 e"
    using pow2_diff [of e ?p] pow2_pos [of ?p] by (simp add: field_simps)
  moreover have "pow2 1024 \<le> pow2 e"
    using assms(3) pow2_less [of 1024 e] by (cases "e = 1024") auto
  ultimately have "pow2 1024 \<le> of_int (round_half_even (x / pow2 ?p)) * pow2 ?p" by simp
  with xpos fl p show ?thesis by (simp add: round_double_def Let_def)
qed

subsection \<open>Renaming a step\<close>

text \<open>Every step that the insert and append methods store is a tuple.\<close>

lemma built_ensemble_tuples:
  "built_ensemble s \<Longrightarrow> \<forall>st \<in> set (pe_block_list s). \<exists>n r. st = PyTuple n r"
proof (induction rule: built_ensemble.induct)
  case (built_ensemble_new name rotating_frame)
  then show ?case by (simp add: PulseBlockEnsemble_def)
next
  case (built_ensemble_insert s position block_name reps r s1)
  then show ?case
    by (auto simp: insert_block_def set_py_insert split: if_splits)
next
  case (built_ensemble_append s block_name reps at_beginning r s1)
  then show ?case
    by (auto simp: append_block_def insert_block_def set_py_insert split: if_splits)
qed

lemma built_sequence_tuples:
  "built_sequence s \<Longrightarrow> \<forall>st \<in> set (ps_ensemble_list s). \<exists>n r. st = PyTuple n r"
proof (induction rule: built_sequence.induct)
  case (built_sequence_new name rotating_frame s)
  then show ?case
    by (auto simp: PulseSequence_def seq_refresh_parameters_def split: sum.splits)
next
  case (built_sequence_insert s position ensemble_name seq_param r s1)
  then show ?case
    by (auto simp: insert_ensemble_def set_py_insert Let_def split: if_splits sum.splits)
next
  case (built_sequence_append s ensemble_name seq_param at_beginning r s1)
  then show ?case
    by (auto simp: append_ensemble_def insert_ensemble_def set_py_insert Let_def
        split: if_splits sum.splits)
qed

text \<open>
  C1. The claim: on an ensemble (or a sequence) whose steps were built by insert and
  append, \<open>replace\<close> at a valid position with a new name and no new parameters returns
  0 and changes only the name of that step. The code does not: the stored step is a
  tuple, the assignment \<open>block_list[position][0] = block_name\<close> raises TypeError, and
  the object stays as it was, old name included.
\<close>

theorem rename_step_raises:
  "(built_ensemble s \<and> 0 \<le> p \<and> p < int (length (pe_block_list s))
      \<longrightarrow> replace_block p block_name None s = (Inl TypeError, s))
 \<and> (built_sequence q \<and> 0 \<le> p' \<and> p' < int (length (ps_ensemble_list q))
      \<longrightarrow> replace_ensemble p' ensemble_name None q = (Inl TypeError, q))"
proof (intro conjI impI)
  assume a: "built_ensemble s \<and> 0 \<le> p \<and> p < int (length (pe_block_list s))"
  then have i: "py_index (length (pe_block_list s)) p = Some (nat p)"
    by (simp add: py_index_nonneg)
  from a have "nat p < length (pe_block_list s)" by linarith
  then have "pe_block_list s ! nat p \<in> set (pe_block_list s)" by simp
  with a built_ensemble_tuples obtain n r where "pe_block_list s ! nat p = PyTuple n r"
    by blast
  with a i show "replace_block p block_name None s = (Inl TypeError, s)"
    by (simp add: replace_block_def)
next
  assume a: "built_sequence q \<and> 0 \<le> p' \<and> p' < int (length (ps_ensemble_list q))"
  then have i: "py_index (length (ps_ensemble_list q)) p' = Some (nat p')"
    by (simp add: py_index_nonneg)
  from a have "nat p' < length (ps_ensemble_list q)" by linarith
  then have "ps_ensemble_list q ! nat p' \<in> set (ps_ensemble_list q)" by simp
  with a built_sequence_tuples obtain n r where "ps_ensemble_list q ! nat p' = PyTuple n r"
    by blast
  with a i show "replace_ensemble p' ensemble_name None q = (Inl TypeError, q)"
    by (simp add: replace_ensemble_def)
qed

text \<open>
  The failing input: a new ensemble after \<open>insert_block(0, 'a', 2)\<close>, then
  \<open>replace_block(0, 'b')\<close>; a new sequence after \<open>append_ensemble('E', {'repetitions':
  0})\<close>, then \<open>replace_ensemble(0, 'F')\<close>.
\<close>

theorem rename_step_raises_witness:
  "replace_block 0 ''b'' None
       (snd (insert_block 0 ''a'' 2 (PulseBlockEnsemble ''e'' None True :: unit ensemble)))
     = (Inl TypeError, snd (insert_block 0 ''a'' 2 (PulseBlockEnsemble ''e'' None True)))
   \<and> pe_block_list
        (snd (insert_block 0 ''a'' 2 (PulseBlockEnsemble ''e'' None True :: unit ensemble)))
     = [PyTuple ''a'' 2]
   \<and> replace_ensemble 0 ''F'' None
       (snd (append_ensemble ''E'' [(''repetitions'', 0)] False
          \<lparr>ps_name = ''q'', ps_rotating_frame = False, ps_ensemble_list = [],
           ps_is_finite = True, ps_sampling_information = ([] :: unit py_dict),
           ps_measurement_information = []\<rparr>))
     = (Inl TypeError,
        snd (append_ensemble ''E'' [(''repetitions'', 0)] False
          \<lparr>ps_name = ''q'', ps_rotating_frame = False, ps_ensemble_list = [],
           ps_is_finite = True, ps_sampling_information = [],
           ps_measurement_information = []\<rparr>))"
proof -
  let ?e0 = "PulseBlockEnsemble ''e'' None True :: unit ensemble"
  let ?q0 = "\<lparr>ps_name = ''q'', ps_rotating_frame = False, ps_ensemble_list = [],
           ps_is_finite = True, ps_sampling_information = ([] :: unit py_dict),
           ps_measurement_information = []\<rparr>"
  let ?e1 = "snd (insert_block 0 ''a'' 2 ?e0)"
  let ?q1 = "snd (append_ensemble ''E'' [(''repetitions'', 0)] False ?q0)"
  have be: "built_ensemble ?e1"
    by (rule built_ensemble_insert [OF built_ensemble_new, of 0 "''a''" 2 _ _
          "fst (insert_block 0 ''a'' 2 ?e0)"]) simp
  have "PulseSequence ''q'' None False = Inr ?q0"
    by (simp add: PulseSequence_def seq_refresh_parameters_def)
  then have "built_sequence ?q0" by (rule built_sequence_new)
  then have bq: "built_sequence ?q1"
    by (rule built_sequence_append [of _ "''E''" "[(''repetitions'', 0)]" False
          "fst (append_ensemble ''E'' [(''repetitions'', 0)] False ?q0)"]) simp
  have le: "pe_block_list ?e1 = [PyTuple ''a'' 2]"
    by (simp add: insert_block_def PulseBlockEnsemble_def py_insert_def)
  have lq: "length (ps_ensemble_list ?q1) = 1"
    by (simp add: append_ensemble_def insert_ensemble_def py_insert_def get_item_def)
  show ?thesis
    using rename_step_raises [where s = ?e1 and p = 0 and q = ?q1 and p' = 0] be bq le lq
    by simp
qed

subsection \<open>Positions outside the list\<close>

text \<open>
  C2, as amended. A replace or delete method of a block, an ensemble or a sequence that
  is called with a position greater than or equal to the length of the list returns
  -1, does not raise, and leaves the object unchanged.
\<close>

theorem position_beyond_end_fails:
  "(int (length (pb_element_list b)) \<le> p1 \<longrightarrow>
      replace_element p1 element b = (Inr (- 1), b) \<and> delete_element p1 b = (Inr (- 1), b))
 \<and> (int (length (pe_block_list s)) \<le> p2 \<longrightarrow>
      replace_block p2 block_name reps s = (Inr (- 1), s)
        \<and> delete_block p2 s = (Inr (- 1), s))
 \<and> (int (length (ps_ensemble_list q)) \<le> p3 \<longrightarrow>
      replace_ensemble p3 ensemble_name seq_param q = (Inr (- 1), q)
        \<and> delete_ensemble p3 q = (Inr (- 1), q))"
  by (simp add: replace_element_def delete_element_def replace_block_def delete_block_def
      replace_ensemble_def delete_ensemble_def)

theorem position_beyond_end_fails_witness:
  "delete_element 0
       \<lparr>pb_name = ''B'', pb_element_list = ([] :: unit element list), pb_init_length_s = Finite 0,
        pb_increment_s = Finite 0, pb_analog_channels = {}, pb_digital_channels = {},
        pb_channel_set = {}\<rparr>
     = (Inr (- 1),
        \<lparr>pb_name = ''B'', pb_element_list = [], pb_init_length_s = Finite 0,
         pb_increment_s = Finite 0, pb_analog_channels = {}, pb_digital_channels = {},
         pb_channel_set = {}\<rparr>)
   \<and> replace_block 4 ''c'' (Some 2)
       (PulseBlockEnsemble ''e'' (Some [PyTuple ''b'' 0]) True :: unit ensemble)
     = (Inr (- 1), PulseBlockEnsemble ''e'' (Some [PyTuple ''b'' 0]) True)
   \<and> delete_block 4 (PulseBlockEnsemble ''e'' (Some [PyTuple ''b'' 0]) True :: unit ensemble)
     = (Inr (- 1), PulseBlockEnsemble ''e'' (Some [PyTuple ''b'' 0]) True)
   \<and> replace_ensemble 1 ''F'' None
       \<lparr>ps_name = ''q'', ps_rotating_frame = False,
        ps_ensemble_list = [PyTuple ''E'' [(''repetitions'', 0)]],
        ps_is_finite = True, ps_sampling_information = ([] :: unit py_dict),
        ps_measurement_information = []\<rparr>
     = (Inr (- 1),
        \<lparr>ps_name = ''q'', ps_rotating_frame = False,
         ps_ensemble_list = [PyTuple ''E'' [(''repetitions'', 0)]],
         ps_is_finite = True, ps_sampling_information = [],
         ps_measurement_information = []\<rparr>)"
  using position_beyond_end_fails
    [where b = "\<lparr>pb_name = ''B'', pb_element_list = ([] :: unit element list),
                 pb_init_length_s = Finite 0, pb_increment_s = Finite 0, pb_analog_channels = {},
                 pb_digital_channels = {}, pb_channel_set = {}\<rparr>"
       and ?p1.0 = 0 and element = "PulseBlockElement (Finite 1) (Finite 0) None None"
       and s = "PulseBlockEnsemble ''e'' (Some [PyTuple ''b'' 0]) True :: unit ensemble"
       and ?p2.0 = 4 and block_name = "''c''" and reps = "Some 2"
       and q = "\<lparr>ps_name = ''q'', ps_rotating_frame = False,
                 ps_ensemble_list = [PyTuple ''E'' [(''repetitions'', 0)]],
                 ps_is_finite = True, ps_sampling_information = ([] :: unit py_dict),
                 ps_measurement_information = []\<rparr>"
       and ?p3.0 = 1 and ensemble_name = "''F''" and seq_param = None]
  by (simp add: PulseBlockEnsemble_def)

text \<open>
  A negative position is not rejected. On an ensemble with one step, \<open>delete_block(-1)\<close>
  returns 0 and removes the step; on an ensemble without steps it raises IndexError.
\<close>

theorem negative_position_counterexample:
  "delete_block (- 1) (PulseBlockEnsemble ''e'' (Some [PyTuple ''b'' 0]) True :: unit ensemble)
     = (Inr 0, PulseBlockEnsemble ''e'' (Some []) True)
   \<and> delete_block (- 1) (PulseBlockEnsemble ''e'' None True :: unit ensemble)
     = (Inl IndexError, PulseBlockEnsemble ''e'' None True)"
  by (simp add: delete_block_def PulseBlockEnsemble_def py_index_def py_del_def)

lemma new_block: "PulseBlock name None =
  Inr \<lparr>pb_name = name, pb_element_list = [], pb_init_length_s = Finite 0,
       pb_increment_s = Finite 0,
       pb_analog_channels = {}, pb_digital_channels = {}, pb_channel_set = {}\<rparr>"
  by (simp add: PulseBlock_def refresh_parameters_def)

subsection \<open>Totals of a block\<close>

lemma float_sum_snoc: "float_sum (xs @ [x]) = fadd (float_sum xs) x"
  by (simp add: float_sum_def)

lemma py_insert_end: "py_insert (int (length xs)) x xs = xs @ [x]"
  by (simp add: py_insert_def)

lemma append_element_totals:
  "totals_ok b \<Longrightarrow> append_element element False b = (r, b1) \<Longrightarrow> totals_ok b1"
  by (auto simp: totals_ok_def append_element_def insert_element_def Let_def py_insert_end
      float_sum_snoc split: if_splits)

lemma appended_block_totals: "appended_block b \<Longrightarrow> totals_ok b"
proof (induction rule: appended_block.induct)
  case (appended_block_new name b)
  then show ?case by (auto simp: new_block totals_ok_def float_sum_def)
next
  case (appended_block_append b element r b1)
  then show ?case by (blast intro: append_element_totals)
qed






text \<open>
  The doubles of the literals \<open>10e-9\<close>, \<open>5e-9\<close> and \<open>1e-9\<close>, and the rounded sums and
  differences of the examples.
\<close>

lemma literal_10ns: "round_double (10 / 10 ^ 9) = Finite (3022314549036573 / 2 ^ 78)"
  by (rule round_double_pos [where e = "- 27" and n = 6044629098073146, THEN trans])
     (simp_all add: round_eval)

lemma literal_5ns: "round_double (5 / 10 ^ 9) = Finite (3022314549036573 / 2 ^ 79)"
  by (rule round_double_pos [where e = "- 28" and n = 6044629098073146, THEN trans])
     (simp_all add: round_eval)

lemma literal_1ns: "round_double (1 / 10 ^ 9) = Finite (4835703278458517 / 2 ^ 82)"
  by (rule round_double_pos [where e = "- 30" and n = 4835703278458517, THEN trans])
     (simp_all add: round_eval)

lemma double_10ns:
  "round_double (3022314549036573 / 2 ^ 78) = Finite (3022314549036573 / 2 ^ 78)"
  by (rule round_double_pos [where e = "- 27" and n = 6044629098073146, THEN trans])
     (simp_all add: round_eval)

lemma double_5ns:
  "round_double (3022314549036573 / 2 ^ 79) = Finite (3022314549036573 / 2 ^ 79)"
  by (rule round_double_pos [where e = "- 28" and n = 6044629098073146, THEN trans])
     (simp_all add: round_eval)

lemma double_1ns:
  "round_double (4835703278458517 / 2 ^ 82) = Finite (4835703278458517 / 2 ^ 82)"
  by (rule round_double_pos [where e = "- 30" and n = 4835703278458517, THEN trans])
     (simp_all add: round_eval)

lemma sum_10ns_5ns:
  "round_double (3022314549036573 / 2 ^ 78 + 3022314549036573 / 2 ^ 79)
     = Finite (1133367955888715 / 2 ^ 76)"
  by (rule round_double_pos [where e = "- 26" and n = 4533471823554860, THEN trans])
     (simp_all add: round_eval)

lemma diff_15ns_10ns:
  "round_double (1133367955888715 / 2 ^ 76 - 3022314549036573 / 2 ^ 78)
     = Finite (1511157274518287 / 2 ^ 78)"
  by (rule round_double_pos [where e = "- 28" and n = 6044629098073148, THEN trans])
     (simp_all add: round_eval)

lemmas nanoseconds =
  literal_10ns [simplified] literal_5ns [simplified] literal_1ns [simplified]
  double_10ns [simplified] double_5ns [simplified] double_1ns [simplified]
  sum_10ns_5ns [simplified] diff_15ns_10ns [simplified]



subsection \<open>Channel sets of a block\<close>

text \<open>
  C5, as amended. When the channel set of the element differs from the channel set of
  the block, \<open>insert_element\<close> at a position up to the length of the list raises
  ValueError if the channel set of the block is not empty, and \<open>replace_element\<close> at a
  position below the length raises ValueError; both leave the block as it was. In
  particular, after an element with a non-empty channel set was inserted into a new
  block, inserting an element with another channel set at position 1 raises and the
  block still holds the first element only.
\<close>

theorem channel_set_mismatch_raises:
  "(el_channel_set element \<noteq> pb_channel_set b \<longrightarrow>
      (pb_channel_set b \<noteq> {} \<and> position \<le> int (length (pb_element_list b)) \<longrightarrow>
         insert_element position element b = (Inl ValueError, b))
    \<and> (position < int (length (pb_element_list b)) \<longrightarrow>
         replace_element position element b = (Inl ValueError, b)))
 \<and> (el_channel_set e1 \<noteq> {} \<and> el_channel_set e2 \<noteq> el_channel_set e1
      \<and> PulseBlock name None = Inr b0 \<longrightarrow>
      fst (insert_element 0 e1 b0) = Inr 0
    \<and> pb_element_list (snd (insert_element 0 e1 b0)) = [e1]
    \<and> insert_element 1 e2 (snd (insert_element 0 e1 b0))
        = (Inl ValueError, snd (insert_element 0 e1 b0)))"
proof (intro conjI impI)
  assume "el_channel_set element \<noteq> pb_channel_set b"
    and "pb_channel_set b \<noteq> {} \<and> position \<le> int (length (pb_element_list b))"
  then show "insert_element position element b = (Inl ValueError, b)"
    by (simp add: insert_element_def)
next
  assume "el_channel_set element \<noteq> pb_channel_set b"
    and "position < int (length (pb_element_list b))"
  then show "replace_element position element b = (Inl ValueError, b)"
    by (simp add: replace_element_def)
next
  assume a: "el_channel_set e1 \<noteq> {} \<and> el_channel_set e2 \<noteq> el_channel_set e1
      \<and> PulseBlock name None = Inr b0"
  then have b0: "pb_element_list b0 = []" "pb_channel_set b0 = {}"
    by (auto simp: new_block)
  then show "fst (insert_element 0 e1 b0) = Inr 0"
    by (simp add: insert_element_def Let_def)
  from b0 show l: "pb_element_list (snd (insert_element 0 e1 b0)) = [e1]"
    by (simp add: insert_element_def Let_def py_insert_def)
  from b0 have "pb_channel_set (snd (insert_element 0 e1 b0)) = el_channel_set e1"
    by (simp add: insert_element_def Let_def)
  with a l show "insert_element 1 e2 (snd (insert_element 0 e1 b0))
        = (Inl ValueError, snd (insert_element 0 e1 b0))"
    by (simp add: insert_element_def [of 1])
qed

text \<open>
  The blocks of the examples that follow are what a new block becomes by one
  \<open>insert_element\<close>: of an element without channels, and of an element with one
  digital channel.
\<close>

lemma example_blocks_inserted:
  "insert_element 0 (PulseBlockElement (Finite 1) (Finite 0) None None)
     \<lparr>pb_name = ''B'', pb_element_list = ([] :: waveform element list),
      pb_init_length_s = Finite 0, pb_increment_s = Finite 0, pb_analog_channels = {},
      pb_digital_channels = {}, pb_channel_set = {}\<rparr>
   = (Inr 0,
      \<lparr>pb_name = ''B'', pb_element_list = [PulseBlockElement (Finite 1) (Finite 0) None None],
       pb_init_length_s = Finite 1, pb_increment_s = Finite 0, pb_analog_channels = {},
       pb_digital_channels = {}, pb_channel_set = {}\<rparr>)"
  "insert_element 0 (PulseBlockElement (Finite 1) (Finite 0) None (Some [(''d_ch1'', True)]))
     \<lparr>pb_name = ''B'', pb_element_list = ([] :: waveform element list),
      pb_init_length_s = Finite 0, pb_increment_s = Finite 0, pb_analog_channels = {},
      pb_digital_channels = {}, pb_channel_set = {}\<rparr>
   = (Inr 0,
      \<lparr>pb_name = ''B'',
       pb_element_list = [PulseBlockElement (Finite 1) (Finite 0) None (Some [(''d_ch1'', True)])],
       pb_init_length_s = Finite 1, pb_increment_s = Finite 0, pb_analog_channels = {},
       pb_digital_channels = {''d_ch1''}, pb_channel_set = {''d_ch1''}\<rparr>)"
  by (auto simp add: insert_element_def py_insert_def Let_def PulseBlockElement_def
      startswith_def)

theorem channel_set_mismatch_raises_witness:
  "insert_element 1 (PulseBlockElement (Finite 1) (Finite 0) (Some [(''a_ch1'', Idle)]) None)
     \<lparr>pb_name = ''B'', pb_element_list = [PulseBlockElement (Finite 1) (Finite 0) None (Some [(''d_ch1'', True)])],
      pb_init_length_s = Finite 1, pb_increment_s = Finite 0, pb_analog_channels = {},
      pb_digital_channels = {''d_ch1''}, pb_channel_set = {''d_ch1''}\<rparr>
   = (Inl ValueError,
     \<lparr>pb_name = ''B'', pb_element_list = [PulseBlockElement (Finite 1) (Finite 0) None (Some [(''d_ch1'', True)])],
      pb_init_length_s = Finite 1, pb_increment_s = Finite 0, pb_analog_channels = {},
      pb_digital_channels = {''d_ch1''}, pb_channel_set = {''d_ch1''}\<rparr>)
 \<and> replace_element 0 (PulseBlockElement (Finite 1) (Finite 0) (Some [(''a_ch1'', Idle)]) None)
     \<lparr>pb_name = ''B'', pb_element_list = [PulseBlockElement (Finite 1) (Finite 0) None (Some [(''d_ch1'', True)])],
      pb_init_length_s = Finite 1, pb_increment_s = Finite 0, pb_analog_channels = {},
      pb_digital_channels = {''d_ch1''}, pb_channel_set = {''d_ch1''}\<rparr>
   = (Inl ValueError,
     \<lparr>pb_name = ''B'', pb_element_list = [PulseBlockElement (Finite 1) (Finite 0) None (Some [(''d_ch1'', True)])],
      pb_init_length_s = Finite 1, pb_increment_s = Finite 0, pb_analog_channels = {},
      pb_digital_channels = {''d_ch1''}, pb_channel_set = {''d_ch1''}\<rparr>)
 \<and> pb_element_list (snd (insert_element 0 (PulseBlockElement (Finite 1) (Finite 0) None (Some [(''d_ch1'', True)]))
       \<lparr>pb_name = ''B'', pb_element_list = ([] :: waveform element list), pb_init_length_s = Finite 0,
        pb_increment_s = Finite 0, pb_analog_channels = {}, pb_digital_channels = {},
        pb_channel_set = {}\<rparr>))
   = [PulseBlockElement (Finite 1) (Finite 0) None (Some [(''d_ch1'', True)])]
 \<and> insert_element 1 (PulseBlockElement (Finite 1) (Finite 0) (Some [(''a_ch1'', Idle)]) None)
     (snd (insert_element 0 (PulseBlockElement (Finite 1) (Finite 0) None (Some [(''d_ch1'', True)]))
       \<lparr>pb_name = ''B'', pb_element_list = ([] :: waveform element list), pb_init_length_s = Finite 0,
        pb_increment_s = Finite 0, pb_analog_channels = {}, pb_digital_channels = {},
        pb_channel_set = {}\<rparr>))
   = (Inl ValueError,
      snd (insert_element 0 (PulseBlockElement (Finite 1) (Finite 0) None (Some [(''d_ch1'', True)]))
       \<lparr>pb_name = ''B'', pb_element_list = ([] :: waveform element list), pb_init_length_s = Finite 0,
        pb_increment_s = Finite 0, pb_analog_channels = {}, pb_digital_channels = {},
        pb_channel_set = {}\<rparr>))"
proof -
  let ?e1 = "PulseBlockElement (Finite 1) (Finite 0) None (Some [(''d_ch1'', True)]) :: waveform element"
  let ?e2 = "PulseBlockElement (Finite 1) (Finite 0) (Some [(''a_ch1'', Idle)]) None :: waveform element"
  let ?b0 = "\<lparr>pb_name = ''B'', pb_element_list = ([] :: waveform element list), pb_init_length_s = Finite 0,
        pb_increment_s = Finite 0, pb_analog_channels = {}, pb_digital_channels = {},
        pb_channel_set = {}\<rparr>"
  let ?b1 = "\<lparr>pb_name = ''B'', pb_element_list = [?e1],
      pb_init_length_s = Finite 1, pb_increment_s = Finite 0, pb_analog_channels = {},
      pb_digital_channels = {''d_ch1''}, pb_channel_set = {''d_ch1''}\<rparr>"
  have cs: "el_channel_set ?e1 = {''d_ch1''}" "el_channel_set ?e2 = {''a_ch1''}"
    by (simp_all add: PulseBlockElement_def)
  have n: "PulseBlock ''B'' None = Inr ?b0" by (simp add: new_block)
  show ?thesis
    using channel_set_mismatch_raises
      [where element = ?e2 and b = ?b1 and position = 1 and ?e1.0 = ?e1 and ?e2.0 = ?e2
         and name = "''B''" and ?b0.0 = ?b0]
      channel_set_mismatch_raises
      [where element = ?e2 and b = ?b1 and position = 0 and ?e1.0 = ?e1 and ?e2.0 = ?e2
         and name = "''B''" and ?b0.0 = ?b0]
      cs n
    by simp
qed

text \<open>
  Beyond the end of the list the position guard answers first, with -1 and without
  raising. A block whose only element has no channel at all keeps an empty channel
  set and takes an element with another channel set.
\<close>

theorem channel_set_mismatch_counterexample:
  "insert_element 5 (PulseBlockElement (Finite 1) (Finite 0) (Some [(''a_ch1'', Idle)]) None)
     \<lparr>pb_name = ''B'', pb_element_list = [PulseBlockElement (Finite 1) (Finite 0) None (Some [(''d_ch1'', True)])],
      pb_init_length_s = Finite 1, pb_increment_s = Finite 0, pb_analog_channels = {},
      pb_digital_channels = {''d_ch1''}, pb_channel_set = {''d_ch1''}\<rparr>
   = (Inr (- 1),
     \<lparr>pb_name = ''B'', pb_element_list = [PulseBlockElement (Finite 1) (Finite 0) None (Some [(''d_ch1'', True)])],
      pb_init_length_s = Finite 1, pb_increment_s = Finite 0, pb_analog_channels = {},
      pb_digital_channels = {''d_ch1''}, pb_channel_set = {''d_ch1''}\<rparr>)
 \<and> fst (insert_element 0 (PulseBlockElement (Finite 1) (Finite 0) (Some [(''a_ch1'', Idle)]) None)
      \<lparr>pb_name = ''B'', pb_element_list = [PulseBlockElement (Finite 1) (Finite 0) None None],
       pb_init_length_s = Finite 1, pb_increment_s = Finite 0, pb_analog_channels = {},
       pb_digital_channels = {}, pb_channel_set = {}\<rparr>) = Inr 0
 \<and> pb_element_list (snd (insert_element 0 (PulseBlockElement (Finite 1) (Finite 0) (Some [(''a_ch1'', Idle)]) None)
      \<lparr>pb_name = ''B'', pb_element_list = [PulseBlockElement (Finite 1) (Finite 0) None None],
       pb_init_length_s = Finite 1, pb_increment_s = Finite 0, pb_analog_channels = {},
       pb_digital_channels = {}, pb_channel_set = {}\<rparr>))
   = [PulseBlockElement (Finite 1) (Finite 0) (Some [(''a_ch1'', Idle)]) None, PulseBlockElement (Finite 1) (Finite 0) None None]"
  by (simp add: insert_element_def py_insert_def Let_def)

subsection \<open>Finiteness of a sequence\<close>

lemma ball_step_param:
  assumes "map step_param l1 = map step_param l"
  shows "(\<forall>st \<in> set l1. P (step_param st)) = (\<forall>st \<in> set l. P (step_param st))"
proof -
  have "(\<forall>st \<in> set k. P (step_param st)) = (\<forall>p \<in> set (map step_param k). P p)" for k
    by simp
  with assms show ?thesis by metis
qed

lemma bex_step_param:
  assumes "map step_param l1 = map step_param l"
  shows "(\<exists>st \<in> set l1. P (step_param st)) = (\<exists>st \<in> set l. P (step_param st))"
  using ball_step_param [OF assms, of "\<lambda>p. \<not> P p"] by blast

lemma finite_loop_total:
  "\<forall>st \<in> set l. has_repetitions (step_param st)
     \<Longrightarrow> finite_loop l = Inr (\<not> (\<exists>st \<in> set l. negative_repetitions (step_param st)))"
  by (induction l)
     (auto simp: has_repetitions_def negative_repetitions_def get_item_def split: option.splits)

lemma seq_refresh_ok:
  "\<forall>st \<in> set (ps_ensemble_list s). has_repetitions (step_param st)
     \<Longrightarrow> seq_refresh_parameters s
         = (Inr (), s\<lparr>ps_is_finite := \<not> (\<exists>st \<in> set (ps_ensemble_list s). negative_repetitions (step_param st))\<rparr>)"
  by (simp add: seq_refresh_parameters_def finite_loop_total)

lemma set_py_del_nth: "i < length xs \<Longrightarrow> insert (xs ! i) (set (py_del i xs)) = set xs"
proof -
  assume "i < length xs"
  then have "xs = take i xs @ xs ! i # drop (Suc i) xs" by (simp add: id_take_nth_drop)
  then have "set xs = set (take i xs) \<union> insert (xs ! i) (set (drop (Suc i) xs))"
    by (metis list.simps(15) set_append)
  then show ?thesis by (auto simp: py_del_def)
qed

lemma get_item_repetitions:
  "has_repetitions p \<Longrightarrow> \<exists>r. get_item p ''repetitions'' = Inr r \<and> map_of p ''repetitions'' = Some r"
  by (auto simp: has_repetitions_def get_item_def)

lemma negative_PyTuple:
  "map_of p ''repetitions'' = Some r \<Longrightarrow> negative_repetitions p = (r < 0)"
  by (simp add: negative_repetitions_def)

lemma insert_ensemble_ok:
  assumes "finite_ok s" "has_repetitions seq_param"
    and "insert_ensemble position ensemble_name seq_param s = (r, s1)"
  shows "finite_ok s1"
proof -
  from assms(2) obtain n where n: "get_item seq_param ''repetitions'' = Inr n"
      "map_of seq_param ''repetitions'' = Some n"
    using get_item_repetitions by blast
  show ?thesis
    using assms n
    by (auto simp: insert_ensemble_def finite_ok_def Let_def set_py_insert negative_PyTuple
        split: if_splits)
qed

lemma delete_ensemble_ok:
  assumes "finite_ok s" and "delete_ensemble position s = (r, s1)"
  shows "finite_ok s1"
proof (cases "int (length (ps_ensemble_list s)) \<le> position")
  case True
  with assms show ?thesis by (simp add: delete_ensemble_def)
next
  case False
  show ?thesis
  proof (cases "py_index (length (ps_ensemble_list s)) position")
    case None
    with False assms show ?thesis by (simp add: delete_ensemble_def)
  next
    case (Some i)
    let ?l = "ps_ensemble_list s"
    from Some have i: "i < length ?l" by (rule py_index_less)
    then have mem: "?l ! i \<in> set ?l" by simp
    from i have ins: "insert (?l ! i) (set (py_del i ?l)) = set ?l" by (rule set_py_del_nth)
    from assms(1) mem have "has_repetitions (step_param (?l ! i))" by (simp add: finite_ok_def)
    then obtain n where n: "get_item (step_param (?l ! i)) ''repetitions'' = Inr n"
      "map_of (step_param (?l ! i)) ''repetitions'' = Some n"
      using get_item_repetitions by blast
    have sub: "set (py_del i ?l) \<subseteq> set ?l" by (rule set_py_del)
    with assms(1) have all: "\<forall>st \<in> set (py_del i ?l). has_repetitions (step_param st)"
      by (auto simp: finite_ok_def)
    show ?thesis
    proof (cases "n < 0")
      case True
      with False Some n assms(2) all show ?thesis
        by (auto simp: delete_ensemble_def Let_def seq_refresh_ok finite_ok_def)
    next
      case False
      then have nn: "\<not> negative_repetitions (step_param (?l ! i))" using n by (simp add: negative_repetitions_def)
      have "(\<exists>st \<in> set (py_del i ?l). negative_repetitions (step_param st)) = (\<exists>st \<in> set ?l. negative_repetitions (step_param st))"
        using ins nn by (metis insert_iff)
      with False \<open>\<not> int (length ?l) \<le> position\<close> Some n assms all show ?thesis
        by (auto simp: delete_ensemble_def Let_def finite_ok_def)
    qed
  qed
qed

lemma replace_ensemble_param_ok:
  assumes "finite_ok s" "has_repetitions seq_param"
    and "replace_ensemble position ensemble_name (Some seq_param) s = (r, s1)"
  shows "finite_ok s1"
proof (cases "int (length (ps_ensemble_list s)) \<le> position")
  case True
  with assms show ?thesis by (simp add: replace_ensemble_def)
next
  case False
  show ?thesis
  proof (cases "py_index (length (ps_ensemble_list s)) position")
    case None
    with False assms show ?thesis by (simp add: replace_ensemble_def)
  next
    case (Some i)
    let ?l = "ps_ensemble_list s"
    let ?l1 = "?l[i := PyTuple ensemble_name seq_param]"
    from Some have i: "i < length ?l" by (rule py_index_less)
    from assms(2) obtain n where n: "get_item seq_param ''repetitions'' = Inr n"
      "map_of seq_param ''repetitions'' = Some n"
      using get_item_repetitions by blast
    have sub: "set ?l1 \<subseteq> insert (PyTuple ensemble_name seq_param) (set ?l)"
      by (rule set_update_subset_insert)
    have mem: "PyTuple ensemble_name seq_param \<in> set ?l1" using i by (rule set_update_memI)
    from sub assms(1,2) have all: "\<forall>st \<in> set ?l1. has_repetitions (step_param st)"
      by (auto simp: finite_ok_def)
    then have rf: "seq_refresh_parameters (s\<lparr>ps_ensemble_list := ?l1\<rparr>)
       = (Inr (), s\<lparr>ps_ensemble_list := ?l1, ps_is_finite := \<not> (\<exists>st \<in> set ?l1. negative_repetitions (step_param st))\<rparr>)"
      by (simp add: seq_refresh_ok)
    have neg: "negative_repetitions seq_param = (n < 0)"
      using n by (simp add: negative_PyTuple)
    show ?thesis
    proof (cases "n < 0")
      case True
      with neg mem have ex: "\<exists>st \<in> set ?l1. negative_repetitions (step_param st)"
        by (metis step_param.simps(1))
      from True False Some n assms(3) have "s1 = s\<lparr>ps_ensemble_list := ?l1, ps_is_finite := False\<rparr>"
        by (cases "ps_is_finite s") (auto simp: replace_ensemble_def Let_def)
      with all ex show ?thesis by (simp add: finite_ok_def)
    next
      case nonneg: False
      show ?thesis
      proof (cases "ps_is_finite s")
        case True
        with assms(1) have "\<not> (\<exists>st \<in> set ?l. negative_repetitions (step_param st))" by (simp add: finite_ok_def)
        with sub neg nonneg have "\<not> (\<exists>st \<in> set ?l1. negative_repetitions (step_param st))" by auto
        moreover from True nonneg False Some n assms(3) have "s1 = s\<lparr>ps_ensemble_list := ?l1\<rparr>"
          by (auto simp: replace_ensemble_def Let_def)
        ultimately show ?thesis using all True by (simp add: finite_ok_def)
      next
        case notfin: False
        with nonneg \<open>\<not> int (length ?l) \<le> position\<close> Some n assms(3) rf
        have "s1 = s\<lparr>ps_ensemble_list := ?l1, ps_is_finite := \<not> (\<exists>st \<in> set ?l1. negative_repetitions (step_param st))\<rparr>"
          by (auto simp: replace_ensemble_def Let_def)
        with all show ?thesis by (simp add: finite_ok_def)
      qed
    qed
  qed
qed

lemma negative_set_step_name:
  "set_step_name st name = Inr st1 \<Longrightarrow> step_param st1 = step_param st"
  by (cases st) auto

lemma replace_ensemble_rename_ok:
  assumes "finite_ok s" and "replace_ensemble position ensemble_name None s = (r, s1)"
  shows "finite_ok s1"
proof (cases "int (length (ps_ensemble_list s)) \<le> position")
  case True
  with assms show ?thesis by (simp add: replace_ensemble_def)
next
  case False
  show ?thesis
  proof (cases "py_index (length (ps_ensemble_list s)) position")
    case None
    with False assms show ?thesis by (simp add: replace_ensemble_def)
  next
    case (Some i)
    let ?l = "ps_ensemble_list s"
    from Some have i: "i < length ?l" by (rule py_index_less)
    show ?thesis
    proof (cases "set_step_name (?l ! i) ensemble_name")
      case (Inl e)
      with False Some assms show ?thesis by (simp add: replace_ensemble_def)
    next
      case (Inr st1)
      then have p: "step_param st1 = step_param (?l ! i)" by (rule negative_set_step_name)
      from Inr False Some assms(2) have s1: "s1 = s\<lparr>ps_ensemble_list := ?l[i := st1]\<rparr>"
        by (simp add: replace_ensemble_def)
      have m: "map step_param (?l[i := st1]) = map step_param ?l"
        using i p by (simp add: map_update list_update_same_conv)
      have "(\<forall>st \<in> set (?l[i := st1]). has_repetitions (step_param st))
               = (\<forall>st \<in> set ?l. has_repetitions (step_param st))"
        "(\<exists>st \<in> set (?l[i := st1]). negative_repetitions (step_param st))
               = (\<exists>st \<in> set ?l. negative_repetitions (step_param st))"
        using m by (rule ball_step_param, rule bex_step_param)
      with assms(1) s1 show ?thesis by (simp add: finite_ok_def)
    qed
  qed
qed

lemma construct_ok:
  assumes "list_all (\<lambda>st. has_repetitions (step_param st)) (case ensemble_list of None \<Rightarrow> [] | Some l \<Rightarrow> l)"
    and "PulseSequence name ensemble_list rotating_frame = Inr s"
  shows "finite_ok s"
  using assms
  by (auto simp: PulseSequence_def seq_refresh_ok list_all_iff finite_ok_def split: option.splits)

lemma reachable_sequence_ok: "reachable_sequence s \<Longrightarrow> finite_ok s"
proof (induction rule: reachable_sequence.induct)
  case (reachable_sequence_new ensemble_list name rotating_frame s)
  then show ?case by (rule construct_ok)
next
  case (reachable_sequence_insert s seq_param position ensemble_name r s1)
  then show ?case by (blast intro: insert_ensemble_ok)
next
  case (reachable_sequence_append s seq_param ensemble_name at_beginning r s1)
  then show ?case unfolding append_ensemble_def by (blast intro: insert_ensemble_ok)
next
  case (reachable_sequence_replace s seq_param position ensemble_name r s1)
  then show ?case by (blast intro: replace_ensemble_param_ok)
next
  case (reachable_sequence_rename s position ensemble_name r s1)
  then show ?case by (blast intro: replace_ensemble_rename_ok)
next
  case (reachable_sequence_delete s position r s1)
  then show ?case by (blast intro: delete_ensemble_ok)
qed

text \<open>
  Where every step has repetitions of at least -1, as the docstring of the class asks,
  the flag is cleared exactly when some step has the repetitions -1.
\<close>

lemma is_finite_minus_one:
  assumes "reachable_sequence s"
    and "\<forall>st \<in> set (ps_ensemble_list s). \<forall>r.
           map_of (step_param st) ''repetitions'' = Some r \<longrightarrow> - 1 \<le> r"
  shows "(ps_is_finite s = False)
           = (\<exists>st \<in> set (ps_ensemble_list s). map_of (step_param st) ''repetitions'' = Some (- 1))"
proof -
  have "negative_repetitions (step_param st) = (map_of (step_param st) ''repetitions'' = Some (- 1))"
    if "st \<in> set (ps_ensemble_list s)" for st
    using assms(2) that
    by (cases "map_of (step_param st) ''repetitions''") (force simp: negative_repetitions_def)+
  with reachable_sequence_ok [OF assms(1)] show ?thesis
    by (auto simp: finite_ok_def)
qed

text \<open>
  C3, as amended. In every sequence reached from construction by insert, append,
  replace and delete, where every step-parameter dict has an integer \<open>repetitions\<close>
  entry, \<open>is_finite\<close> is false if and only if some step of the current list has
  repetitions below 0. After the only step with negative repetitions is deleted,
  \<open>is_finite\<close> is true again.
\<close>

theorem is_finite_negative_repetitions:
  "reachable_sequence s \<Longrightarrow>
     (ps_is_finite s = False)
       = (\<exists>st \<in> set (ps_ensemble_list s). \<exists>r. map_of (step_param st) ''repetitions'' = Some r \<and> r < 0)"
  using reachable_sequence_ok [of s]
  by (auto simp: finite_ok_def negative_repetitions_def split: option.splits)

text \<open>
  The sequence with the steps \<open>(E1, {repetitions: 3})\<close> and \<open>(E2, {repetitions: -1})\<close>
  is not finite; after \<open>delete_ensemble(1)\<close> it is.
\<close>

theorem is_finite_negative_repetitions_witness:
  "PulseSequence ''S''
      (Some [PyTuple ''E1'' [(''repetitions'', 3)], PyTuple ''E2'' [(''repetitions'', - 1)]]) False
     = Inr \<lparr>ps_name = ''S'', ps_rotating_frame = False,
            ps_ensemble_list =
              [PyTuple ''E1'' [(''repetitions'', 3)], PyTuple ''E2'' [(''repetitions'', - 1)]],
            ps_is_finite = False, ps_sampling_information = ([] :: unit py_dict),
            ps_measurement_information = []\<rparr>
   \<and> ps_ensemble_list (snd (delete_ensemble 1
        \<lparr>ps_name = ''S'', ps_rotating_frame = False,
         ps_ensemble_list =
           [PyTuple ''E1'' [(''repetitions'', 3)], PyTuple ''E2'' [(''repetitions'', - 1)]],
         ps_is_finite = False, ps_sampling_information = ([] :: unit py_dict),
         ps_measurement_information = []\<rparr>)) = [PyTuple ''E1'' [(''repetitions'', 3)]]
   \<and> ps_is_finite (snd (delete_ensemble 1
        \<lparr>ps_name = ''S'', ps_rotating_frame = False,
         ps_ensemble_list =
           [PyTuple ''E1'' [(''repetitions'', 3)], PyTuple ''E2'' [(''repetitions'', - 1)]],
         ps_is_finite = False, ps_sampling_information = ([] :: unit py_dict),
         ps_measurement_information = []\<rparr>)) = True"
proof -
  let ?l = "[PyTuple ''E1'' [(''repetitions'', 3)], PyTuple ''E2'' [(''repetitions'', - 1)]]"
  let ?s0 = "\<lparr>ps_name = ''S'', ps_rotating_frame = False, ps_ensemble_list = ?l,
            ps_is_finite = False, ps_sampling_information = ([] :: unit py_dict),
            ps_measurement_information = []\<rparr>"
  let ?s1 = "snd (delete_ensemble 1 ?s0)"
  have c: "PulseSequence ''S'' (Some ?l) False = Inr ?s0"
    by (simp add: PulseSequence_def seq_refresh_parameters_def get_item_def)
  have "list_all (\<lambda>st. has_repetitions (step_param st)) (case Some ?l of None \<Rightarrow> [] | Some l \<Rightarrow> l)"
    by (simp add: has_repetitions_def)
  then have r0: "reachable_sequence ?s0" using c by (rule reachable_sequence_new)
  have r1: "reachable_sequence ?s1"
    by (rule reachable_sequence_delete [OF r0, of 1 "fst (delete_ensemble 1 ?s0)"]) simp
  have l1: "ps_ensemble_list ?s1 = [PyTuple ''E1'' [(''repetitions'', 3)]]"
    by (simp add: delete_ensemble_def py_index_def py_del_def get_item_def Let_def
        seq_refresh_parameters_def)
  from is_finite_negative_repetitions [OF r1] have f: "ps_is_finite ?s1 = True"
    unfolding l1 by simp
  from c l1 f show ?thesis by (intro conjI)
qed

text \<open>
  The test of the code is \<open>repetitions < 0\<close>, not \<open>repetitions == -1\<close>: a sequence
  whose only step has the repetitions -2 is not finite.
\<close>

theorem is_finite_counterexample:
  "PulseSequence ''S'' (Some [PyTuple ''E'' [(''repetitions'', - 2)]]) False
     = Inr \<lparr>ps_name = ''S'', ps_rotating_frame = False,
            ps_ensemble_list = [PyTuple ''E'' [(''repetitions'', - 2)]],
            ps_is_finite = False, ps_sampling_information = ([] :: unit py_dict),
            ps_measurement_information = []\<rparr>
   \<and> get_item (step_param (PyTuple ''E'' [(''repetitions'', - 2)])) ''repetitions'' = Inr (- 2)"
  by (simp add: PulseSequence_def seq_refresh_parameters_def get_item_def)

subsection \<open>Playback length of an ensemble\<close>

lemma blocks_by_name_last:
  "blocks_by_name bs n =
     (if filter (\<lambda>b. pb_name b = n) bs = [] then None
      else Some (last (filter (\<lambda>b. pb_name b = n) bs)))"
proof (induction bs rule: rev_induct)
  case Nil
  then show ?case by (simp add: blocks_by_name_def)
next
  case (snoc b bs)
  have "blocks_by_name (bs @ [b]) = (blocks_by_name bs)(pb_name b \<mapsto> b)"
    by (simp add: blocks_by_name_def)
  with snoc show ?case by simp
qed

lemma blocks_by_name_member:
  "n \<in> pb_name ` set bs \<Longrightarrow>
     blocks_by_name bs n = Some (last (filter (\<lambda>b. pb_name b = n) bs))"
proof -
  assume "n \<in> pb_name ` set bs"
  then have "filter (\<lambda>b. pb_name b = n) bs \<noteq> []"
    by (auto simp: filter_empty_conv)
  then show ?thesis by (simp add: blocks_by_name_last)
qed

lemma count_length_loop_sum:
  assumes "\<forall>st \<in> set steps. blocks (step_name st) = Some (block (step_name st))"
    and "\<forall>st \<in> set steps. \<not> step_overflows st"
  shows "count_length_loop blocks steps len = Inr (foldl (add_step_length block) len steps)"
  using assms
  by (induction steps arbitrary: len)
     (simp_all add: step_overflows_def float_of_int_def int_true_divide_def
        add_step_length_def)

lemma count_length_loop_overflow:
  assumes "\<forall>st \<in> set steps. blocks (step_name st) = Some (block (step_name st))"
    and "\<exists>st \<in> set steps. step_overflows st"
  shows "count_length_loop blocks steps len = Inl OverflowError"
  using assms
proof (induction steps arbitrary: len)
  case Nil
  then show ?case by simp
next
  case (Cons st steps)
  show ?case
  proof (cases "step_overflows st")
    case True
    with Cons.prems(1) show ?thesis
      by (auto simp: step_overflows_def float_of_int_def int_true_divide_def)
  next
    case False
    with Cons.prems(2) have "\<exists>st \<in> set steps. step_overflows st" by simp
    with Cons.prems(1) have "count_length_loop blocks steps len' = Inl OverflowError" for len'
      by (intro Cons.IH) simp_all
    with False Cons.prems(1) show ?thesis
      by (simp add: step_overflows_def float_of_int_def int_true_divide_def)
  qed
qed

text \<open>The doubles and the rounded products and sums of the examples.\<close>

lemma double_3: "round_double 3 = Finite 3"
  by (rule round_double_pos [where e = 1 and n = 6755399441055744, THEN trans])
     (simp_all add: round_eval)

lemma literal_2ns: "round_double (2 / 10 ^ 9) = Finite (4835703278458517 / 2 ^ 81)"
  by (rule round_double_pos [where e = "- 29" and n = 4835703278458517, THEN trans])
     (simp_all add: round_eval)

lemma literal_36ns: "round_double (36 / 10 ^ 9) = Finite (5440166188265831 / 2 ^ 77)"
  by (rule round_double_pos [where e = "- 25" and n = 5440166188265831, THEN trans])
     (simp_all add: round_eval)

lemma product_10ns_3:
  "round_double (3022314549036573 / 2 ^ 78 * 3) = Finite (1133367955888715 / 2 ^ 75)"
  by (rule round_double_pos [where e = "- 25" and n = 4533471823554860, THEN trans])
     (simp_all add: round_eval)

lemma double_30ns:
  "round_double (1133367955888715 / 2 ^ 75) = Finite (1133367955888715 / 2 ^ 75)"
  by (rule round_double_pos [where e = "- 25" and n = 4533471823554860, THEN trans])
     (simp_all add: round_eval)

lemma product_2ns_3:
  "round_double (4835703278458517 / 2 ^ 81 * 3) = Finite (226673591177743 / 2 ^ 75)"
  by (rule round_double_pos [where e = "- 28" and n = 7253554917687776, THEN trans])
     (simp_all add: round_eval)

lemma sum_30ns_6ns:
  "round_double (1133367955888715 / 2 ^ 75 + 226673591177743 / 2 ^ 75)
     = Finite (680020773533229 / 2 ^ 74)"
  by (rule round_double_pos [where e = "- 25" and n = 5440166188265832, THEN trans])
     (simp_all add: round_eval)

lemma literal_3us: "round_double (3 / 10 ^ 6) = Finite (1770887431076117 / 2 ^ 69)"
  by (rule round_double_pos [where e = "- 19" and n = 7083549724304468, THEN trans])
     (simp_all add: round_eval)

lemma literal_200ns: "round_double (2 / 10 ^ 7) = Finite (944473296573929 / 2 ^ 72)"
  by (rule round_double_pos [where e = "- 23" and n = 7555786372591432, THEN trans])
     (simp_all add: round_eval)

lemma sum_3us_200ns:
  "round_double (1770887431076117 / 2 ^ 69 + 944473296573929 / 2 ^ 72)
     = Finite (944473296573929 / 2 ^ 68)"
  by (rule round_double_pos [where e = "- 19" and n = 7555786372591432, THEN trans])
     (simp_all add: round_eval)

lemmas playback_example =
  double_3 literal_2ns [simplified] literal_36ns [simplified] product_10ns_3 [simplified]
  double_30ns [simplified] product_2ns_3 [simplified] sum_30ns_6ns [simplified]
  literal_3us [simplified] literal_200ns [simplified] sum_3us_200ns [simplified]

text \<open>
  C7, as amended. With a gate channel configured (and the laser length and the laser
  delay set), \<open>_get_ensemble_count_length\<close> returns their float sum, whatever the steps
  of the ensemble are. Without a gate channel, and when every block name of the steps
  occurs among the created blocks, it raises OverflowError if the repetitions of some
  step are too large for a float, and otherwise returns the float sum over the steps
  \<open>(block_name, reps)\<close>, added in their order to \<open>0.0\<close>, of \<open>init_length_s * (reps + 1)\<close>
  and then of \<open>increment_s * ((reps ** 2 + reps) / 2)\<close>, every product and every sum
  rounded to a double, taken at the block of that name (the last one, should several
  blocks bear the name).
\<close>

theorem ensemble_count_length:
  "(gp_gate_channel gp = Some channel \<and> channel \<noteq> []
      \<and> gp_laser_length gp = Some laser_length \<and> gp_laser_delay gp = Some laser_delay
      \<longrightarrow> get_ensemble_count_length gp ensemble created_blocks
            = Inr (fadd laser_length laser_delay))
 \<and> ((gp_gate_channel gp = None \<or> gp_gate_channel gp = Some [])
      \<and> (\<forall>st \<in> set (pe_block_list ensemble). step_name st \<in> pb_name ` set created_blocks)
      \<longrightarrow> get_ensemble_count_length gp ensemble created_blocks =
           (if \<exists>st \<in> set (pe_block_list ensemble). step_overflows st
            then Inl OverflowError
            else Inr (foldl
                   (add_step_length (\<lambda>n. last (filter (\<lambda>b. pb_name b = n) created_blocks)))
                   (Finite 0) (pe_block_list ensemble))))"
proof (intro conjI impI)
  assume "gp_gate_channel gp = Some channel \<and> channel \<noteq> []
      \<and> gp_laser_length gp = Some laser_length \<and> gp_laser_delay gp = Some laser_delay"
  then show "get_ensemble_count_length gp ensemble created_blocks
      = Inr (fadd laser_length laser_delay)"
    by (simp add: get_ensemble_count_length_def gate_channel_set_def gate_channel_def)
next
  assume a: "(gp_gate_channel gp = None \<or> gp_gate_channel gp = Some [])
      \<and> (\<forall>st \<in> set (pe_block_list ensemble). step_name st \<in> pb_name ` set created_blocks)"
  then have g: "\<not> gate_channel_set gp"
    by (auto simp: gate_channel_set_def gate_channel_def)
  let ?block = "\<lambda>n. last (filter (\<lambda>b. pb_name b = n) created_blocks)"
  let ?steps = "pe_block_list ensemble"
  from a have names: "\<forall>st \<in> set ?steps.
      blocks_by_name created_blocks (step_name st) = Some (?block (step_name st))"
    by (simp add: blocks_by_name_member)
  show "get_ensemble_count_length gp ensemble created_blocks =
           (if \<exists>st \<in> set ?steps. step_overflows st
            then Inl OverflowError
            else Inr (foldl (add_step_length ?block) (Finite 0) ?steps))"
  proof (cases "\<exists>st \<in> set ?steps. step_overflows st")
    case True
    with names have "count_length_loop (blocks_by_name created_blocks) ?steps (Finite 0)
        = Inl OverflowError"
      by (rule count_length_loop_overflow)
    with g True show ?thesis by (simp add: get_ensemble_count_length_def)
  next
    case False
    then have "\<forall>st \<in> set ?steps. \<not> step_overflows st" by simp
    with names have "count_length_loop (blocks_by_name created_blocks) ?steps (Finite 0)
        = Inr (foldl (add_step_length ?block) (Finite 0) ?steps)"
      by (rule count_length_loop_sum)
    with g False show ?thesis by (simp add: get_ensemble_count_length_def)
  qed
qed

text \<open>
  A gate channel, a laser length of \<open>3e-6\<close> and a laser delay of \<open>2e-7\<close> give
  \<open>3.2e-06\<close>. Without gate channel, one step \<open>(B, 2)\<close> of a block with the duration
  \<open>10e-9\<close> and the increment \<open>2e-9\<close> gives \<open>3.6000000000000005e-08\<close>.
\<close>

theorem ensemble_count_length_witness:
  "get_ensemble_count_length
     \<lparr>gp_gate_channel = Some ''d_ch2'', gp_laser_length = Some (round_double (3 / 10 ^ 6)),
      gp_laser_delay = Some (round_double (2 / 10 ^ 7))\<rparr>
     (PulseBlockEnsemble ''ens'' (Some [PyTuple ''B'' 2]) True :: unit ensemble)
     ([] :: waveform block list)
   = Inr (Finite (944473296573929 / 2 ^ 68))
 \<and> get_ensemble_count_length
     \<lparr>gp_gate_channel = Some [], gp_laser_length = None, gp_laser_delay = None\<rparr>
     (PulseBlockEnsemble ''ens'' (Some [PyTuple ''B'' 2]) True :: unit ensemble)
     [\<lparr>pb_name = ''B'', pb_element_list = ([] :: waveform element list),
       pb_init_length_s = round_double (10 / 10 ^ 9),
       pb_increment_s = round_double (2 / 10 ^ 9),
       pb_analog_channels = {}, pb_digital_channels = {}, pb_channel_set = {}\<rparr>]
   = Inr (Finite (680020773533229 / 2 ^ 74))"
proof -
  let ?ens = "PulseBlockEnsemble ''ens'' (Some [PyTuple ''B'' 2]) True :: unit ensemble"
  let ?B = "\<lparr>pb_name = ''B'', pb_element_list = ([] :: waveform element list),
       pb_init_length_s = round_double (10 / 10 ^ 9),
       pb_increment_s = round_double (2 / 10 ^ 9),
       pb_analog_channels = {}, pb_digital_channels = {}, pb_channel_set = {}\<rparr>"
  let ?gate = "\<lparr>gp_gate_channel = Some ''d_ch2'',
       gp_laser_length = Some (round_double (3 / 10 ^ 6)),
       gp_laser_delay = Some (round_double (2 / 10 ^ 7))\<rparr>"
  let ?none = "\<lparr>gp_gate_channel = Some [], gp_laser_length = None, gp_laser_delay = None\<rparr>"
  have l: "pe_block_list ?ens = [PyTuple ''B'' 2]" by (simp add: PulseBlockEnsemble_def)
  have o: "\<not> step_overflows (PyTuple ''B'' 2)"
    by (simp add: step_overflows_def overflows_def playback_example)
  have 1: "get_ensemble_count_length ?gate ?ens ([] :: waveform block list)
      = Inr (Finite (944473296573929 / 2 ^ 68))"
    using ensemble_count_length
      [where gp = ?gate and channel = "''d_ch2''"
         and laser_length = "round_double (3 / 10 ^ 6)"
         and laser_delay = "round_double (2 / 10 ^ 7)"
         and ensemble = ?ens and created_blocks = "[] :: waveform block list"]
    by (simp add: playback_example)
  have 2: "get_ensemble_count_length ?none ?ens [?B] = Inr (Finite (680020773533229 / 2 ^ 74))"
    using ensemble_count_length
      [where gp = ?none and channel = "[]" and laser_length = NaN and laser_delay = NaN
         and ensemble = ?ens and created_blocks = "[?B]"] o
    by (simp add: l add_step_length_def playback_example nanoseconds)
  from 1 2 show ?thesis by (intro conjI)
qed

text \<open>
  The step \<open>(B, 2)\<close> of a block with the duration \<open>10e-9\<close> and the increment \<open>2e-9\<close>
  does not give the float \<open>36e-9\<close>: the code returns \<open>3.6000000000000005e-08\<close>, the next
  double. With one step of \<open>2 ^ 1024\<close> repetitions it raises OverflowError.
\<close>

theorem ensemble_count_length_counterexample:
  "get_ensemble_count_length
     \<lparr>gp_gate_channel = None, gp_laser_length = None, gp_laser_delay = None\<rparr>
     (PulseBlockEnsemble ''ens'' (Some [PyTuple ''B'' 2]) True :: unit ensemble)
     [\<lparr>pb_name = ''B'', pb_element_list = ([] :: waveform element list),
       pb_init_length_s = round_double (10 / 10 ^ 9),
       pb_increment_s = round_double (2 / 10 ^ 9),
       pb_analog_channels = {}, pb_digital_channels = {}, pb_channel_set = {}\<rparr>]
   = Inr (Finite (680020773533229 / 2 ^ 74))
 \<and> round_double (36 / 10 ^ 9) = Finite (5440166188265831 / 2 ^ 77)
 \<and> Finite (680020773533229 / 2 ^ 74) \<noteq> Finite (5440166188265831 / 2 ^ 77)
 \<and> get_ensemble_count_length
     \<lparr>gp_gate_channel = None, gp_laser_length = None, gp_laser_delay = None\<rparr>
     (PulseBlockEnsemble ''ens'' (Some [PyTuple ''B'' (2 ^ 1024)]) True :: unit ensemble)
     [\<lparr>pb_name = ''B'', pb_element_list = ([] :: waveform element list),
       pb_init_length_s = round_double (10 / 10 ^ 9),
       pb_increment_s = round_double (2 / 10 ^ 9),
       pb_analog_channels = {}, pb_digital_channels = {}, pb_channel_set = {}\<rparr>]
   = Inl OverflowError"
proof (intro conjI)
  show "get_ensemble_count_length
     \<lparr>gp_gate_channel = None, gp_laser_length = None, gp_laser_delay = None\<rparr>
     (PulseBlockEnsemble ''ens'' (Some [PyTuple ''B'' 2]) True :: unit ensemble)
     [\<lparr>pb_name = ''B'', pb_element_list = ([] :: waveform element list),
       pb_init_length_s = round_double (10 / 10 ^ 9),
       pb_increment_s = round_double (2 / 10 ^ 9),
       pb_analog_channels = {}, pb_digital_channels = {}, pb_channel_set = {}\<rparr>]
   = Inr (Finite (680020773533229 / 2 ^ 74))"
    by (simp add: get_ensemble_count_length_def gate_channel_set_def gate_channel_def
        blocks_by_name_def PulseBlockEnsemble_def float_of_int_def int_true_divide_def
        overflows_def playback_example nanoseconds)
  show "round_double (36 / 10 ^ 9) = Finite (5440166188265831 / 2 ^ 77)"
    by (rule literal_36ns)
  show "Finite (680020773533229 / 2 ^ 74) \<noteq> Finite (5440166188265831 / 2 ^ 77)"
    by simp
  have "pow2 1024 \<le> of_int (2 ^ 1024 + 1)" and "of_int (2 ^ 1024 + 1) < pow2 (1024 + 1)"
    by (simp_all add: pow2_def)
  then have "round_double (of_int (2 ^ 1024 + 1)) = PosInf"
    by (rule round_double_overflow) simp
  then have "overflows (of_int (2 ^ 1024 + 1))"
    by (simp add: overflows_def)
  then show "get_ensemble_count_length
     \<lparr>gp_gate_channel = None, gp_laser_length = None, gp_laser_delay = None\<rparr>
     (PulseBlockEnsemble ''ens'' (Some [PyTuple ''B'' (2 ^ 1024)]) True :: unit ensemble)
     [\<lparr>pb_name = ''B'', pb_element_list = ([] :: waveform element list),
       pb_init_length_s = round_double (10 / 10 ^ 9),
       pb_increment_s = round_double (2 / 10 ^ 9),
       pb_analog_channels = {}, pb_digital_channels = {}, pb_channel_set = {}\<rparr>]
   = Inl OverflowError"
    by (simp add: get_ensemble_count_length_def gate_channel_set_def gate_channel_def
        blocks_by_name_def PulseBlockEnsemble_def float_of_int_def)
qed

subsection \<open>Harvesting the generate methods\<close>

lemma startswith_generate:
  "startswith method_name ''generate_'' = (take 9 method_name = ''generate_'')"
proof -
  have "length ''generate_'' = (9 :: nat)" by simp
  then show ?thesis by (simp only: startswith_def)
qed

lemma generate_prefix:
  "(startswith method_name ''generate_'' \<and> drop 9 method_name = k) = (method_name = ''generate_'' @ k)"
proof
  assume a: "startswith method_name ''generate_'' \<and> drop 9 method_name = k"
  then have "take 9 method_name = ''generate_''" by (simp only: startswith_generate)
  with a show "method_name = ''generate_'' @ k"
    by (metis append_take_drop_id)
next
  assume "method_name = ''generate_'' @ k"
  then show "startswith method_name ''generate_'' \<and> drop 9 method_name = k"
    by (simp add: startswith_def)
qed

lemma fold_fold_concat: "fold (fold f) xss a = fold f (concat xss) a"
  by (induction xss arbitrary: a) simp_all

lemma populate_flat:
  "populate_method_dict instance_list = fold register_method (concat instance_list) Map.empty"
proof -
  have "populate_method_dict instance_list = fold (fold register_method) instance_list Map.empty"
    by (simp add: populate_method_dict_def)
  then show ?thesis by (simp only: fold_fold_concat)
qed

lemma fold_register_last:
  "fold register_method members Map.empty k =
     (if filter (\<lambda>(n, m). n = ''generate_'' @ k) members = [] then None
      else Some (snd (last (filter (\<lambda>(n, m). n = ''generate_'' @ k) members))))"
proof (induction members rule: rev_induct)
  case Nil
  then show ?case by simp
next
  case (snoc x xs)
  obtain n m where x: "x = (n, m)" by (cases x)
  show ?case
  proof (cases "n = ''generate_'' @ k")
    case True
    then have "startswith n ''generate_''" "drop 9 n = k"
      using generate_prefix [of n k] by simp_all
    with x True show ?thesis by (simp add: register_method_def)
  next
    case False
    then have "\<not> (startswith n ''generate_'' \<and> drop 9 n = k)"
      using generate_prefix [of n k] by simp
    with x False snoc show ?thesis by (auto simp: register_method_def)
  qed
qed

text \<open>
  C8. After the harvesting pass over a list of generator instances, the entry of the
  method dict under a name \<open>k\<close> is the method called \<open>generate_k\<close> that comes last in
  the order of the pass (instance by instance, member by member), and there is no
  entry when no instance has such a method: every method with the prefix is
  registered under the rest of its name, and a later one replaces an earlier one.
\<close>

theorem populate_method_dict_last_writer:
  "populate_method_dict instance_list k =
     (if filter (\<lambda>(n, m). n = ''generate_'' @ k) (concat instance_list) = [] then None
      else Some (snd (last (filter (\<lambda>(n, m). n = ''generate_'' @ k) (concat instance_list)))))"
  by (simp only: populate_flat fold_register_last)

text \<open>
  Two instances with a method \<open>generate_foo\<close>: the entry \<open>foo\<close> is the method of the
  second one. A method without the prefix is not registered.
\<close>

theorem populate_method_dict_last_writer_witness:
  "populate_method_dict
     [[(''generate_foo'', 1 :: nat), (''helper'', 2)], [(''generate_bar'', 3), (''generate_foo'', 4)]]
     ''foo'' = Some 4
   \<and> populate_method_dict
     [[(''generate_foo'', 1 :: nat), (''helper'', 2)], [(''generate_bar'', 3), (''generate_foo'', 4)]]
     ''helper'' = None
   \<and> populate_method_dict
     [[(''generate_foo'', 1 :: nat), (''helper'', 2)], [(''generate_bar'', 3), (''generate_foo'', 4)]]
     ''bar'' = Some 3"
  using populate_method_dict_last_writer
    [of "[[(''generate_foo'', 1 :: nat), (''helper'', 2)], [(''generate_bar'', 3), (''generate_foo'', 4)]]" "''foo''"]
   populate_method_dict_last_writer
    [of "[[(''generate_foo'', 1 :: nat), (''helper'', 2)], [(''generate_bar'', 3), (''generate_foo'', 4)]]" "''helper''"]
   populate_method_dict_last_writer
    [of "[[(''generate_foo'', 1 :: nat), (''helper'', 2)], [(''generate_bar'', 3), (''generate_foo'', 4)]]" "''bar''"]
  by simp

subsection \<open>Generator classes\<close>

text \<open>
  C9. \<open>is_generator_class\<close> accepts an object if and only if it is a class whose
  \<open>__bases__\<close> is the one-element tuple of \<open>PredefinedGeneratorBase\<close>. A class with
  any other tuple of bases (the base next to another type, or a class derived from a
  generator class) adds nothing to the methods found: the method dict is the same
  with the class in a module as without it.
\<close>

theorem generator_class_single_base:
  "(is_generator_class obj = (\<exists>name methods. obj = PyClass name [PredefinedGeneratorBase] methods))
 \<and> (bases \<noteq> [PredefinedGeneratorBase] \<longrightarrow>
      predefined_generate_methods
        (paths1 @ [Some (modules1 @ [objs1 @ [PyClass name bases methods] @ objs2] @ modules2)] @ paths2)
      = predefined_generate_methods
        (paths1 @ [Some (modules1 @ [objs1 @ objs2] @ modules2)] @ paths2))"
proof (intro conjI impI)
  show "is_generator_class obj = (\<exists>name methods. obj = PyClass name [PredefinedGeneratorBase] methods)"
  proof (cases obj)
    case (PyClass n bs ms)
    have "(PredefinedGeneratorBase \<in> set bs \<and> length bs = 1) = (bs = [PredefinedGeneratorBase])"
      by (cases bs) auto
    with PyClass show ?thesis by simp
  next
    case PyOther
    then show ?thesis by simp
  qed
next
  assume "bases \<noteq> [PredefinedGeneratorBase]"
  then have "\<not> (PredefinedGeneratorBase \<in> set bases \<and> length bases = 1)"
    by (cases bases) auto
  then have "\<not> is_generator_class (PyClass name bases methods)" by simp
  then have "import_external_generators
        (paths1 @ [Some (modules1 @ [objs1 @ [PyClass name bases methods] @ objs2] @ modules2)] @ paths2)
      = import_external_generators
        (paths1 @ [Some (modules1 @ [objs1 @ objs2] @ modules2)] @ paths2)"
    by (simp add: import_external_generators_def)
  then show "predefined_generate_methods
        (paths1 @ [Some (modules1 @ [objs1 @ [PyClass name bases methods] @ objs2] @ modules2)] @ paths2)
      = predefined_generate_methods
        (paths1 @ [Some (modules1 @ [objs1 @ objs2] @ modules2)] @ paths2)"
    by (simp add: predefined_generate_methods_def)
qed

theorem generator_class_single_base_witness:
  "is_generator_class (PyClass ''BasicGenerator'' [PredefinedGeneratorBase] [(''generate_rabi'', 1 :: nat)])
 \<and> \<not> is_generator_class
       (PyClass ''Mixed'' [PredefinedGeneratorBase, OtherClass ''Mixin''] [(''generate_rabi'', 2 :: nat)])
 \<and> \<not> is_generator_class
       (PyClass ''Derived'' [OtherClass ''BasicGenerator''] [(''generate_rabi'', 3 :: nat)])
 \<and> predefined_generate_methods
      [Some [[PyClass ''BasicGenerator'' [PredefinedGeneratorBase] [(''generate_rabi'', 1 :: nat)],
              PyClass ''Mixed'' [PredefinedGeneratorBase, OtherClass ''Mixin''] [(''generate_rabi'', 2)]]]]
      ''rabi'' = Some 1"
proof -
  let ?basic = "PyClass ''BasicGenerator'' [PredefinedGeneratorBase] [(''generate_rabi'', 1 :: nat)]"
  let ?mixed = "PyClass ''Mixed'' [PredefinedGeneratorBase, OtherClass ''Mixin''] [(''generate_rabi'', 2 :: nat)]"
  have "predefined_generate_methods [Some [[?basic, ?mixed]]]
      = predefined_generate_methods [Some [[?basic]]]"
    using generator_class_single_base
      [where bases = "[PredefinedGeneratorBase, OtherClass ''Mixin'']" and ?paths1.0 = "[]"
         and ?paths2.0 = "[]" and ?modules1.0 = "[]" and ?modules2.0 = "[]"
         and ?objs1.0 = "[?basic]" and ?objs2.0 = "[]" and name = "''Mixed''"
         and methods = "[(''generate_rabi'', 2 :: nat)]" and obj = ?basic]
    by simp
  moreover have "predefined_generate_methods [Some [[?basic]]] ''rabi'' = Some 1"
    by (simp add: predefined_generate_methods_def import_external_generators_def
        populate_method_dict_def register_method_def startswith_def)
  ultimately show ?thesis by simp
qed

subsection \<open>Round trip through the dict representation\<close>

lemma waveform_catalog_inverse: "construct_sf waveform_catalog (waveform_dict func) = Inr func"
  by (cases func) (simp_all add: construct_sf_def waveform_catalog_def)

lemma from_dict_loop_serialized:
  assumes "\<forall>func. construct_sf sf (func_dict func) = Inr func"
  shows "from_dict_loop sf (map (\<lambda>(chnl, func). (chnl, SFDict (func_dict func))) pf)
           = (Inr pf, map (\<lambda>(chnl, func). (chnl, SFObj func)) pf)"
  using assms by (induction pf) auto

lemma PulseBlockElement_consistent: "element_consistent (PulseBlockElement l i pf dh)"
  by (simp add: element_consistent_def PulseBlockElement_def)

lemma element_consistent_constructor:
  "element_consistent e \<Longrightarrow>
     PulseBlockElement (el_init_length_s e) (el_increment_s e) (Some (el_pulse_function e))
       (Some (el_digital_high e)) = e"
  by (cases e) (auto simp: element_consistent_def PulseBlockElement_def)

lemma element_round_trip:
  assumes "\<forall>func. construct_sf sf (func_dict func) = Inr func" and "element_consistent e"
  shows "fst (element_from_dict sf (element_get_dict_representation func_dict e)) = Inr e"
proof -
  have "fst (element_from_dict sf (element_get_dict_representation func_dict e))
          = Inr (PulseBlockElement (el_init_length_s e) (el_increment_s e)
                  (Some (el_pulse_function e)) (Some (el_digital_high e)))"
    by (simp add: element_from_dict_def element_get_dict_representation_def
        from_dict_loop_serialized [OF assms(1)])
  with assms(2) show ?thesis by (simp add: element_consistent_constructor)
qed

lemma block_loop_serialized:
  assumes "\<forall>func. construct_sf sf (func_dict func) = Inr func"
    and "\<forall>e \<in> set es. element_consistent e"
  shows "fst (block_from_dict_loop sf
                (map (\<lambda>element. ElDict (element_get_dict_representation func_dict element)) es))
           = Inr es"
  using assms(2)
proof (induction es)
  case Nil
  then show ?case by simp
next
  case (Cons e es)
  then have e: "fst (element_from_dict sf (element_get_dict_representation func_dict e)) = Inr e"
    using element_round_trip [OF assms(1)] by simp
  from Cons have ih: "fst (block_from_dict_loop sf
                (map (\<lambda>element. ElDict (element_get_dict_representation func_dict element)) es))
           = Inr es" by simp
  obtain d1 where d1: "element_from_dict sf (element_get_dict_representation func_dict e) = (Inr e, d1)"
    using e by (cases "element_from_dict sf (element_get_dict_representation func_dict e)") simp
  obtain l1 where l1: "block_from_dict_loop sf
                (map (\<lambda>element. ElDict (element_get_dict_representation func_dict element)) es)
           = (Inr es, l1)"
    using ih
    by (cases "block_from_dict_loop sf
                (map (\<lambda>element. ElDict (element_get_dict_representation func_dict element)) es)")
       simp
  show ?case by (simp add: d1 l1)
qed

text \<open>
  The block that \<open>block_from_dict\<close> builds from the dict representation is the block
  that the constructor builds from the name and the elements.
\<close>

lemma block_from_dict_constructor:
  assumes "\<forall>func. construct_sf sf (func_dict func) = Inr func"
    and "\<forall>e \<in> set (pb_element_list b). element_consistent e"
  shows "fst (block_from_dict sf (block_get_dict_representation func_dict b))
           = PulseBlock (pb_name b) (Some (pb_element_list b))"
proof -
  obtain l1 where "block_from_dict_loop sf
      (map (\<lambda>element. ElDict (element_get_dict_representation func_dict element)) (pb_element_list b))
    = (Inr (pb_element_list b), l1)"
    using block_loop_serialized [OF assms]
    by (cases "block_from_dict_loop sf
      (map (\<lambda>element. ElDict (element_get_dict_representation func_dict element))
         (pb_element_list b))") simp
  then show ?thesis
    by (simp add: block_from_dict_def block_get_dict_representation_def)
qed

text \<open>The constructor on a list of elements that all have one channel set.\<close>

lemma refresh_loop_uniform:
  assumes "\<forall>e \<in> set es. el_channel_set e = X"
    and "pb_channel_set b = {} \<or> pb_channel_set b = X"
  shows "refresh_loop es b =
     (Inr (),
      b\<lparr>pb_init_length_s := foldl fadd (pb_init_length_s b) (map el_init_length_s es),
        pb_increment_s := foldl fadd (pb_increment_s b) (map el_increment_s es),
        pb_channel_set := (if es = [] then pb_channel_set b else X)\<rparr>)"
  using assms
proof (induction es arbitrary: b)
  case Nil
  then show ?case by simp
next
  case (Cons e es)
  let ?b1 = "b\<lparr>pb_init_length_s := fadd (pb_init_length_s b) (el_init_length_s e),
                pb_increment_s := fadd (pb_increment_s b) (el_increment_s e)\<rparr>"
  from Cons.prems have e: "el_channel_set e = X" and es: "\<forall>e \<in> set es. el_channel_set e = X"
    by simp_all
  show ?case
  proof (cases "pb_channel_set b = {}")
    case True
    have "refresh_loop (e # es) b = refresh_loop es (?b1\<lparr>pb_channel_set := X\<rparr>)"
      using True e by (simp add: Let_def)
    also have "\<dots> = (Inr (),
      (?b1\<lparr>pb_channel_set := X\<rparr>)
        \<lparr>pb_init_length_s := foldl fadd (pb_init_length_s (?b1\<lparr>pb_channel_set := X\<rparr>))
                               (map el_init_length_s es),
        pb_increment_s := foldl fadd (pb_increment_s (?b1\<lparr>pb_channel_set := X\<rparr>))
                            (map el_increment_s es),
        pb_channel_set := (if es = [] then pb_channel_set (?b1\<lparr>pb_channel_set := X\<rparr>) else X)\<rparr>)"
      using es by (intro Cons.IH) simp_all
    finally show ?thesis by simp
  next
    case False
    with Cons.prems have X: "pb_channel_set b = X" by simp
    have "refresh_loop (e # es) b = refresh_loop es ?b1"
      using False X e by (simp add: Let_def)
    also have "\<dots> = (Inr (),
      ?b1\<lparr>pb_init_length_s := foldl fadd (pb_init_length_s ?b1) (map el_init_length_s es),
        pb_increment_s := foldl fadd (pb_increment_s ?b1) (map el_increment_s es),
        pb_channel_set := (if es = [] then pb_channel_set ?b1 else X)\<rparr>)"
      using es X by (intro Cons.IH) simp_all
    finally show ?thesis using X by simp
  qed
qed

lemma block_consistent_constructor:
  assumes "block_consistent b"
  shows "PulseBlock (pb_name b) (Some (pb_element_list b)) = Inr b"
proof -
  let ?es = "pb_element_list b"
  let ?X = "pb_channel_set b"
  let ?b0 = "\<lparr>pb_name = pb_name b, pb_element_list = ?es, pb_init_length_s = Finite 0,
              pb_increment_s = Finite 0, pb_analog_channels = {}, pb_digital_channels = {},
              pb_channel_set = {}\<rparr>"
  from assms have u: "\<forall>e \<in> set ?es. el_channel_set e = ?X"
    and n: "?es = [] \<longrightarrow> ?X = {}"
    and a: "pb_analog_channels b = {chnl \<in> ?X. startswith chnl ''a''}"
    and d: "pb_digital_channels b = {chnl \<in> ?X. startswith chnl ''d''}"
    and t: "totals_ok b"
    by (simp_all add: block_consistent_def)
  have "refresh_loop ?es ?b0
      = (Inr (),
         ?b0\<lparr>pb_init_length_s := foldl fadd (pb_init_length_s ?b0) (map el_init_length_s ?es),
              pb_increment_s := foldl fadd (pb_increment_s ?b0) (map el_increment_s ?es),
              pb_channel_set := (if ?es = [] then pb_channel_set ?b0 else ?X)\<rparr>)"
    using u by (intro refresh_loop_uniform) simp_all
  then have "refresh_loop ?es ?b0
      = (Inr (), ?b0\<lparr>pb_init_length_s := pb_init_length_s b, pb_increment_s := pb_increment_s b,
                       pb_channel_set := ?X\<rparr>)"
    using t n by (simp add: totals_ok_def float_sum_def)
  then have "PulseBlock (pb_name b) (Some ?es) =
      Inr \<lparr>pb_name = pb_name b, pb_element_list = ?es, pb_init_length_s = pb_init_length_s b,
            pb_increment_s = pb_increment_s b, pb_analog_channels = pb_analog_channels b,
            pb_digital_channels = pb_digital_channels b, pb_channel_set = ?X\<rparr>"
    using a d by (simp add: PulseBlock_def refresh_parameters_def)
  then show ?thesis by simp
qed

text \<open>
  The constructor on the elements of a block that was built by appending: the elements
  without channels come first, and the next one gives the block its channel set.
\<close>

lemma refresh_loop_snoc:
  "refresh_loop es b = (Inr (), b1) \<Longrightarrow> refresh_loop (es @ [e]) b = refresh_loop [e] b1"
proof (induction es arbitrary: b)
  case Nil
  then show ?case by simp
next
  case (Cons a es)
  let ?b1 = "b\<lparr>pb_init_length_s := fadd (pb_init_length_s b) (el_init_length_s a),
                pb_increment_s := fadd (pb_increment_s b) (el_increment_s a)\<rparr>"
  show ?case
  proof (cases "pb_channel_set b = {}")
    case True
    with Cons.prems
    have "refresh_loop es (?b1\<lparr>pb_channel_set := el_channel_set a\<rparr>) = (Inr (), b1)"
      by (simp add: Let_def)
    then have "refresh_loop (es @ [e]) (?b1\<lparr>pb_channel_set := el_channel_set a\<rparr>)
        = refresh_loop [e] b1"
      by (rule Cons.IH)
    moreover have "refresh_loop ((a # es) @ [e]) b
        = refresh_loop (es @ [e]) (?b1\<lparr>pb_channel_set := el_channel_set a\<rparr>)"
      using True by (simp add: Let_def)
    ultimately show ?thesis by (rule trans [rotated])
  next
    case False
    show ?thesis
    proof (cases "pb_channel_set b = el_channel_set a")
      case True
      with False Cons.prems have "refresh_loop es ?b1 = (Inr (), b1)"
        by (simp add: Let_def)
      then have "refresh_loop (es @ [e]) ?b1 = refresh_loop [e] b1"
        by (rule Cons.IH)
      moreover have "refresh_loop ((a # es) @ [e]) b = refresh_loop (es @ [e]) ?b1"
        using True False by (simp add: Let_def)
      ultimately show ?thesis by (rule trans [rotated])
    next
      case neq: False
      with False Cons.prems show ?thesis by (simp add: Let_def)
    qed
  qed
qed

lemma appended_block_refresh:
  "appended_block b \<Longrightarrow>
     refresh_loop (pb_element_list b)
       \<lparr>pb_name = n, pb_element_list = l, pb_init_length_s = Finite 0,
        pb_increment_s = Finite 0, pb_analog_channels = a, pb_digital_channels = d,
        pb_channel_set = {}\<rparr>
     = (Inr (),
        \<lparr>pb_name = n, pb_element_list = l,
         pb_init_length_s = float_sum (map el_init_length_s (pb_element_list b)),
         pb_increment_s = float_sum (map el_increment_s (pb_element_list b)),
         pb_analog_channels = a, pb_digital_channels = d,
         pb_channel_set = pb_channel_set b\<rparr>)"
proof (induction rule: appended_block.induct)
  case (appended_block_new name b)
  then show ?case by (auto simp: new_block float_sum_def)
next
  case (appended_block_append b element r b1)
  let ?es = "pb_element_list b"
  note ih = appended_block_append.IH
  note snoc = refresh_loop_snoc [OF ih, of element]
  show ?case
  proof (cases "pb_channel_set b = {}")
    case True
    with appended_block_append.hyps(2) have l: "pb_element_list b1 = ?es @ [element]"
      and c: "pb_channel_set b1 = el_channel_set element"
      by (auto simp: append_element_def insert_element_def Let_def py_insert_end)
    show ?thesis
      unfolding l using snoc True by (simp add: Let_def float_sum_snoc c)
  next
    case False
    show ?thesis
    proof (cases "el_channel_set element = pb_channel_set b")
      case True
      with False appended_block_append.hyps(2) have l: "pb_element_list b1 = ?es @ [element]"
        and c: "pb_channel_set b1 = pb_channel_set b"
        by (auto simp: append_element_def insert_element_def Let_def py_insert_end)
      show ?thesis
        unfolding l using snoc True False by (simp add: Let_def float_sum_snoc c)
    next
      case neq: False
      with False appended_block_append.hyps(2) have "b1 = b"
        by (auto simp: append_element_def insert_element_def Let_def)
      with ih show ?thesis by simp
    qed
  qed
qed

lemma appended_block_channels:
  "appended_block b \<Longrightarrow>
     pb_analog_channels b = {chnl \<in> pb_channel_set b. startswith chnl ''a''}
     \<and> pb_digital_channels b = {chnl \<in> pb_channel_set b. startswith chnl ''d''}"
proof (induction rule: appended_block.induct)
  case (appended_block_new name b)
  then show ?case by (auto simp: new_block)
next
  case (appended_block_append b element r b1)
  then show ?case
    by (auto simp: append_element_def insert_element_def Let_def split: if_splits)
qed

lemma appended_block_constructor:
  assumes "appended_block b"
  shows "PulseBlock (pb_name b) (Some (pb_element_list b)) = Inr b"
proof -
  from assms have t: "totals_ok b" by (rule appended_block_totals)
  from appended_block_channels [OF assms]
  have a: "pb_analog_channels b = {chnl \<in> pb_channel_set b. startswith chnl ''a''}"
    and d: "pb_digital_channels b = {chnl \<in> pb_channel_set b. startswith chnl ''d''}"
    by simp_all
  have "PulseBlock (pb_name b) (Some (pb_element_list b)) =
      Inr \<lparr>pb_name = pb_name b, pb_element_list = pb_element_list b,
            pb_init_length_s = pb_init_length_s b, pb_increment_s = pb_increment_s b,
            pb_analog_channels = pb_analog_channels b,
            pb_digital_channels = pb_digital_channels b,
            pb_channel_set = pb_channel_set b\<rparr>"
    using t a d
    by (simp add: PulseBlock_def refresh_parameters_def appended_block_refresh [OF assms]
        totals_ok_def)
  then show ?thesis by simp
qed

lemma ensemble_round_trip: "ensemble_from_dict (ensemble_get_dict_representation s) = s"
  by (simp add: ensemble_from_dict_def ensemble_get_dict_representation_def PulseBlockEnsemble_def)

lemma sequence_round_trip:
  assumes "finite_ok q"
  shows "sequence_from_dict (sequence_get_dict_representation q) = Inr q"
proof -
  from assms have all: "\<forall>st \<in> set (ps_ensemble_list q). has_repetitions (step_param st)"
    and f: "ps_is_finite q = (\<not> (\<exists>st \<in> set (ps_ensemble_list q). negative_repetitions (step_param st)))"
    by (simp_all add: finite_ok_def)
  from all have c: "PulseSequence (ps_name q) (Some (ps_ensemble_list q)) (ps_rotating_frame q)
      = Inr \<lparr>ps_name = ps_name q, ps_rotating_frame = ps_rotating_frame q,
             ps_ensemble_list = ps_ensemble_list q, ps_is_finite = ps_is_finite q,
             ps_sampling_information = [], ps_measurement_information = []\<rparr>"
    by (simp add: PulseSequence_def seq_refresh_ok f)
  show ?thesis
    by (simp add: sequence_from_dict_def sequence_get_dict_representation_def c)
qed

lemma finite_ok_information:
  "finite_ok (q\<lparr>ps_sampling_information := si, ps_measurement_information := mi\<rparr>) = finite_ok q"
  by (simp add: finite_ok_def)

text \<open>
  C6, as amended. When the catalog builds from the record of every sampling function
  an equal sampling function, the object rebuilt from the dict representation has in
  every field the value of the original:
  for every element that the constructor builds;
  for every block whose elements have the channel sets of their dicts and the channel
  set of the block, whose channel set is empty when it has no element, whose analog and
  digital channels are the parts of its channel set, and whose totals are the float
  sums over its elements in the order of the list;
  for every block built from a new block by \<open>append_element\<close> at the end alone, with
  elements that have the channel sets of their dicts;
  for every ensemble;
  for every sequence whose steps all have the key \<open>repetitions\<close> and whose flag
  \<open>is_finite\<close> tells that no step has negative repetitions, so for every sequence
  reached from construction by the editing methods, whatever its sampling and
  measurement information have been set to.
  A float is compared as a value, a NaN being equal to itself.
\<close>

theorem dict_round_trip:
  "\<forall>func. construct_sf sf (func_dict func) = Inr func \<Longrightarrow>
     fst (element_from_dict sf
            (element_get_dict_representation func_dict (PulseBlockElement l i pf dh)))
       = Inr (PulseBlockElement l i pf dh)
   \<and> (block_consistent b \<longrightarrow>
        fst (block_from_dict sf (block_get_dict_representation func_dict b)) = Inr b)
   \<and> (appended_block a \<and> (\<forall>e \<in> set (pb_element_list a). element_consistent e) \<longrightarrow>
        fst (block_from_dict sf (block_get_dict_representation func_dict a)) = Inr a)
   \<and> ensemble_from_dict (ensemble_get_dict_representation s) = s
   \<and> (finite_ok q \<longrightarrow>
        sequence_from_dict (sequence_get_dict_representation q) = Inr q)
   \<and> (reachable_sequence p \<longrightarrow>
        sequence_from_dict
          (sequence_get_dict_representation
             (p\<lparr>ps_sampling_information := si, ps_measurement_information := mi\<rparr>))
          = Inr (p\<lparr>ps_sampling_information := si, ps_measurement_information := mi\<rparr>))"
proof (intro conjI impI)
  assume cat: "\<forall>func. construct_sf sf (func_dict func) = Inr func"
  show "fst (element_from_dict sf
            (element_get_dict_representation func_dict (PulseBlockElement l i pf dh)))
       = Inr (PulseBlockElement l i pf dh)"
    using cat PulseBlockElement_consistent by (rule element_round_trip)
  show "ensemble_from_dict (ensemble_get_dict_representation s) = s"
    by (rule ensemble_round_trip)
  {
    assume b: "block_consistent b"
    then have "\<forall>e \<in> set (pb_element_list b). element_consistent e"
      by (simp add: block_consistent_def)
    with cat have "fst (block_from_dict sf (block_get_dict_representation func_dict b))
        = PulseBlock (pb_name b) (Some (pb_element_list b))"
      by (rule block_from_dict_constructor)
    with b show "fst (block_from_dict sf (block_get_dict_representation func_dict b)) = Inr b"
      by (simp add: block_consistent_constructor)
  }
  {
    assume a: "appended_block a \<and> (\<forall>e \<in> set (pb_element_list a). element_consistent e)"
    then have "\<forall>e \<in> set (pb_element_list a). element_consistent e" by simp
    with cat have "fst (block_from_dict sf (block_get_dict_representation func_dict a))
        = PulseBlock (pb_name a) (Some (pb_element_list a))"
      by (rule block_from_dict_constructor)
    with a show "fst (block_from_dict sf (block_get_dict_representation func_dict a)) = Inr a"
      by (simp add: appended_block_constructor)
  }
  {
    assume "finite_ok q"
    then show "sequence_from_dict (sequence_get_dict_representation q) = Inr q"
      by (rule sequence_round_trip)
  }
  {
    assume "reachable_sequence p"
    then have "finite_ok p" by (rule reachable_sequence_ok)
    then have "finite_ok (p\<lparr>ps_sampling_information := si, ps_measurement_information := mi\<rparr>)"
      by (simp only: finite_ok_information)
    then show "sequence_from_dict
          (sequence_get_dict_representation
             (p\<lparr>ps_sampling_information := si, ps_measurement_information := mi\<rparr>))
          = Inr (p\<lparr>ps_sampling_information := si, ps_measurement_information := mi\<rparr>)"
      by (rule sequence_round_trip)
  }
qed

text \<open>
  An element with a sine on one analog channel; a block of that element; the block
  that two calls of \<open>append_element\<close> build; an ensemble with sampling information; a
  sequence that is not finite, with sampling and measurement information; a sequence
  as its constructor leaves it, after both informations were set. The catalog is the
  one of this file.
\<close>

theorem dict_round_trip_witness:
  "fst (element_from_dict waveform_catalog
          (element_get_dict_representation waveform_dict
             (PulseBlockElement (round_double (10 / 10 ^ 9)) (Finite 0)
                (Some [(''a_ch1'', Sin (Finite 1) (Finite 2) (Finite 3))])
                (Some [(''d_ch1'', True)]))))
     = Inr (PulseBlockElement (round_double (10 / 10 ^ 9)) (Finite 0)
              (Some [(''a_ch1'', Sin (Finite 1) (Finite 2) (Finite 3))])
              (Some [(''d_ch1'', True)]))
 \<and> fst (block_from_dict waveform_catalog
          (block_get_dict_representation waveform_dict
             \<lparr>pb_name = ''B'',
              pb_element_list =
                [PulseBlockElement (round_double (10 / 10 ^ 9)) (Finite 0)
                   (Some [(''a_ch1'', Sin (Finite 1) (Finite 2) (Finite 3))])
                   (Some [(''d_ch1'', True)])],
              pb_init_length_s = round_double (10 / 10 ^ 9), pb_increment_s = Finite 0,
              pb_analog_channels = {''a_ch1''}, pb_digital_channels = {''d_ch1''},
              pb_channel_set = {''a_ch1'', ''d_ch1''}\<rparr>))
     = Inr \<lparr>pb_name = ''B'',
            pb_element_list =
              [PulseBlockElement (round_double (10 / 10 ^ 9)) (Finite 0)
                 (Some [(''a_ch1'', Sin (Finite 1) (Finite 2) (Finite 3))])
                 (Some [(''d_ch1'', True)])],
            pb_init_length_s = round_double (10 / 10 ^ 9), pb_increment_s = Finite 0,
            pb_analog_channels = {''a_ch1''}, pb_digital_channels = {''d_ch1''},
            pb_channel_set = {''a_ch1'', ''d_ch1''}\<rparr>
 \<and> fst (block_from_dict waveform_catalog
          (block_get_dict_representation waveform_dict
             (snd (append_element
                (PulseBlockElement (round_double (5 / 10 ^ 9)) (round_double (1 / 10 ^ 9))
                   (Some [(''a_ch1'', Idle)]) (Some [(''d_ch1'', False)])) False
               (snd (append_element
                  (PulseBlockElement (round_double (10 / 10 ^ 9)) (Finite 0)
                     (Some [(''a_ch1'', Sin (Finite 1) (Finite 2) (Finite 3))])
                     (Some [(''d_ch1'', True)])) False
                 \<lparr>pb_name = ''B'', pb_element_list = [],
                  pb_init_length_s = Finite 0, pb_increment_s = Finite 0,
                  pb_analog_channels = {}, pb_digital_channels = {},
                  pb_channel_set = {}\<rparr>))))))
     = Inr (snd (append_element
                (PulseBlockElement (round_double (5 / 10 ^ 9)) (round_double (1 / 10 ^ 9))
                   (Some [(''a_ch1'', Idle)]) (Some [(''d_ch1'', False)])) False
               (snd (append_element
                  (PulseBlockElement (round_double (10 / 10 ^ 9)) (Finite 0)
                     (Some [(''a_ch1'', Sin (Finite 1) (Finite 2) (Finite 3))])
                     (Some [(''d_ch1'', True)])) False
                 \<lparr>pb_name = ''B'', pb_element_list = [],
                  pb_init_length_s = Finite 0, pb_increment_s = Finite 0,
                  pb_analog_channels = {}, pb_digital_channels = {},
                  pb_channel_set = {}\<rparr>))))
 \<and> ensemble_from_dict
       (ensemble_get_dict_representation
          \<lparr>pe_name = ''ens'', pe_rotating_frame = True, pe_block_list = [PyTuple ''B'' 2],
           pe_sampling_information = [(''sample_rate'', 25 :: int)],
           pe_measurement_information = []\<rparr>)
     = \<lparr>pe_name = ''ens'', pe_rotating_frame = True, pe_block_list = [PyTuple ''B'' 2],
        pe_sampling_information = [(''sample_rate'', 25 :: int)],
        pe_measurement_information = []\<rparr>
 \<and> sequence_from_dict
       (sequence_get_dict_representation
          \<lparr>ps_name = ''S'', ps_rotating_frame = False,
           ps_ensemble_list =
             [PyTuple ''E1'' [(''repetitions'', 3)], PyTuple ''E2'' [(''repetitions'', - 1)]],
           ps_is_finite = False,
           ps_sampling_information = [(''sample_rate'', 25 :: int)],
           ps_measurement_information = [(''number_of_lasers'', 4)]\<rparr>)
     = Inr \<lparr>ps_name = ''S'', ps_rotating_frame = False,
            ps_ensemble_list =
              [PyTuple ''E1'' [(''repetitions'', 3)], PyTuple ''E2'' [(''repetitions'', - 1)]],
            ps_is_finite = False,
            ps_sampling_information = [(''sample_rate'', 25 :: int)],
            ps_measurement_information = [(''number_of_lasers'', 4)]\<rparr>
 \<and> sequence_from_dict
       (sequence_get_dict_representation
          (\<lparr>ps_name = ''T'', ps_rotating_frame = True,
            ps_ensemble_list = [PyTuple ''E1'' [(''repetitions'', 3)]],
            ps_is_finite = True, ps_sampling_information = [],
            ps_measurement_information = []\<rparr>
           \<lparr>ps_sampling_information := [(''sample_rate'', 25 :: int)],
            ps_measurement_information := [(''number_of_lasers'', 4)]\<rparr>))
     = Inr (\<lparr>ps_name = ''T'', ps_rotating_frame = True,
             ps_ensemble_list = [PyTuple ''E1'' [(''repetitions'', 3)]],
             ps_is_finite = True, ps_sampling_information = [],
             ps_measurement_information = []\<rparr>
            \<lparr>ps_sampling_information := [(''sample_rate'', 25 :: int)],
             ps_measurement_information := [(''number_of_lasers'', 4)]\<rparr>)"
proof -
  let ?e1 = "PulseBlockElement (round_double (10 / 10 ^ 9)) (Finite 0)
               (Some [(''a_ch1'', Sin (Finite 1) (Finite 2) (Finite 3))])
               (Some [(''d_ch1'', True)])"
  let ?e2 = "PulseBlockElement (round_double (5 / 10 ^ 9)) (round_double (1 / 10 ^ 9))
               (Some [(''a_ch1'', Idle)]) (Some [(''d_ch1'', False)])"
  let ?b = "\<lparr>pb_name = ''B'', pb_element_list = [?e1],
              pb_init_length_s = round_double (10 / 10 ^ 9), pb_increment_s = Finite 0,
              pb_analog_channels = {''a_ch1''}, pb_digital_channels = {''d_ch1''},
              pb_channel_set = {''a_ch1'', ''d_ch1''}\<rparr>"
  let ?new = "\<lparr>pb_name = ''B'', pb_element_list = ([] :: waveform element list),
              pb_init_length_s = Finite 0, pb_increment_s = Finite 0,
              pb_analog_channels = {}, pb_digital_channels = {}, pb_channel_set = {}\<rparr>"
  let ?a1 = "snd (append_element ?e1 False ?new)"
  let ?a = "snd (append_element ?e2 False ?a1)"
  let ?s = "\<lparr>pe_name = ''ens'', pe_rotating_frame = True, pe_block_list = [PyTuple ''B'' 2],
           pe_sampling_information = [(''sample_rate'', 25 :: int)],
           pe_measurement_information = []\<rparr>"
  let ?q = "\<lparr>ps_name = ''S'', ps_rotating_frame = False,
           ps_ensemble_list =
             [PyTuple ''E1'' [(''repetitions'', 3)], PyTuple ''E2'' [(''repetitions'', - 1)]],
           ps_is_finite = False,
           ps_sampling_information = [(''sample_rate'', 25 :: int)],
           ps_measurement_information = [(''number_of_lasers'', 4)]\<rparr>"
  let ?l = "[PyTuple ''E1'' [(''repetitions'', 3)]]"
  let ?p = "\<lparr>ps_name = ''T'', ps_rotating_frame = True, ps_ensemble_list = ?l,
            ps_is_finite = True, ps_sampling_information = ([] :: int py_dict),
            ps_measurement_information = []\<rparr>"
  have cat: "\<forall>func. construct_sf waveform_catalog (waveform_dict func) = Inr func"
    by (simp add: waveform_catalog_inverse)
  have cs: "el_channel_set ?e1 = {''a_ch1'', ''d_ch1''}"
    by (auto simp: PulseBlockElement_def)
  have "{chnl \<in> {''a_ch1'', ''d_ch1''}. startswith chnl ''a''} = {''a_ch1''}"
    and "{chnl \<in> {''a_ch1'', ''d_ch1''}. startswith chnl ''d''} = {''d_ch1''}"
    by (auto simp: startswith_def)
  moreover have "totals_ok ?b"
    by (simp add: totals_ok_def float_sum_def PulseBlockElement_def nanoseconds)
  ultimately have bc: "block_consistent ?b"
    using cs by (simp add: block_consistent_def PulseBlockElement_consistent)
  have n: "PulseBlock ''B'' None = Inr ?new" by (simp add: new_block)
  have a1: "appended_block ?a1"
    by (rule appended_block_append [OF appended_block_new [OF n],
          of ?e1 "fst (append_element ?e1 False ?new)"]) simp
  have a2: "appended_block ?a"
    by (rule appended_block_append [OF a1, of ?e2 "fst (append_element ?e2 False ?a1)"]) simp
  have l1: "pb_element_list ?a1 = [?e1]" "pb_channel_set ?a1 = {''a_ch1'', ''d_ch1''}"
    by (auto simp: append_element_def insert_element_def py_insert_def
        PulseBlockElement_def)
  have "el_channel_set ?e2 = {''a_ch1'', ''d_ch1''}"
    by (auto simp: PulseBlockElement_def)
  with l1 have "pb_element_list ?a = [?e1, ?e2]"
    by (simp add: append_element_def insert_element_def py_insert_def)
  then have ec: "\<forall>e \<in> set (pb_element_list ?a). element_consistent e"
    by (simp add: PulseBlockElement_consistent)
  have fq: "finite_ok ?q"
    by (simp add: finite_ok_def has_repetitions_def negative_repetitions_def)
  have "PulseSequence ''T'' (Some ?l) True = Inr ?p"
    by (simp add: PulseSequence_def seq_refresh_parameters_def get_item_def)
  moreover have "list_all (\<lambda>st. has_repetitions (step_param st))
      (case Some ?l of None \<Rightarrow> [] | Some l \<Rightarrow> l)"
    by (simp add: has_repetitions_def)
  ultimately have rp: "reachable_sequence ?p" by (rule reachable_sequence_new [rotated])
  from dict_round_trip [OF cat, where l = "round_double (10 / 10 ^ 9)" and i = "Finite 0"
        and pf = "Some [(''a_ch1'', Sin (Finite 1) (Finite 2) (Finite 3))]"
        and dh = "Some [(''d_ch1'', True)]"
        and b = ?b and a = ?a and s = ?s and q = ?q and p = ?p
        and si = "[(''sample_rate'', 25 :: int)]" and mi = "[(''number_of_lasers'', 4)]"]
    bc a2 ec fq rp
  show ?thesis by blast
qed

text \<open>
  A block that lost its last element keeps its channel sets: \<open>delete_element\<close> resets
  the totals only. The dict representation does not carry the channel sets, and the
  block rebuilt from it has empty ones. A block of the elements of \<open>10e-9\<close> and \<open>5e-9\<close>
  that lost the first one has the total duration \<open>5.000000000000002e-09\<close>; the block
  rebuilt from its dict representation has \<open>5e-09\<close>, the duration of its element.
\<close>

theorem dict_round_trip_counterexample:
  "delete_element 0
     (snd (insert_element 0
        (PulseBlockElement (Finite 1) (Finite 0) (Some [(''a_ch1'', Idle)]) None)
        \<lparr>pb_name = ''B'', pb_element_list = [], pb_init_length_s = Finite 0,
         pb_increment_s = Finite 0,
         pb_analog_channels = {}, pb_digital_channels = {}, pb_channel_set = {}\<rparr>))
     = (Inr 0,
        \<lparr>pb_name = ''B'', pb_element_list = [], pb_init_length_s = Finite 0,
         pb_increment_s = Finite 0,
         pb_analog_channels = {''a_ch1''}, pb_digital_channels = {},
         pb_channel_set = {''a_ch1''}\<rparr>)
 \<and> fst (block_from_dict waveform_catalog
        (block_get_dict_representation waveform_dict
           \<lparr>pb_name = ''B'', pb_element_list = [], pb_init_length_s = Finite 0,
            pb_increment_s = Finite 0,
            pb_analog_channels = {''a_ch1''}, pb_digital_channels = {},
            pb_channel_set = {''a_ch1''}\<rparr>))
     = Inr \<lparr>pb_name = ''B'', pb_element_list = [], pb_init_length_s = Finite 0,
            pb_increment_s = Finite 0,
            pb_analog_channels = {}, pb_digital_channels = {}, pb_channel_set = {}\<rparr>
 \<and> {''a_ch1''} \<noteq> ({} :: string set)
 \<and> delete_element 0
     (snd (append_element
        (PulseBlockElement (round_double (5 / 10 ^ 9)) (Finite 0) None
           (Some [(''d_ch1'', False)])) False
       (snd (append_element
          (PulseBlockElement (round_double (10 / 10 ^ 9)) (Finite 0) None
             (Some [(''d_ch1'', True)])) False
         \<lparr>pb_name = ''B'', pb_element_list = ([] :: waveform element list),
          pb_init_length_s = Finite 0, pb_increment_s = Finite 0,
          pb_analog_channels = {}, pb_digital_channels = {}, pb_channel_set = {}\<rparr>))))
     = (Inr 0,
        \<lparr>pb_name = ''B'',
         pb_element_list =
           [PulseBlockElement (round_double (5 / 10 ^ 9)) (Finite 0) None
              (Some [(''d_ch1'', False)])],
         pb_init_length_s = Finite (1511157274518287 / 2 ^ 78), pb_increment_s = Finite 0,
         pb_analog_channels = {}, pb_digital_channels = {''d_ch1''},
         pb_channel_set = {''d_ch1''}\<rparr>)
 \<and> fst (block_from_dict waveform_catalog
        (block_get_dict_representation waveform_dict
           \<lparr>pb_name = ''B'',
            pb_element_list =
              [PulseBlockElement (round_double (5 / 10 ^ 9)) (Finite 0) None
                 (Some [(''d_ch1'', False)])],
            pb_init_length_s = Finite (1511157274518287 / 2 ^ 78),
            pb_increment_s = Finite 0,
            pb_analog_channels = {}, pb_digital_channels = {''d_ch1''},
            pb_channel_set = {''d_ch1''}\<rparr>))
     = Inr \<lparr>pb_name = ''B'',
            pb_element_list =
              [PulseBlockElement (round_double (5 / 10 ^ 9)) (Finite 0) None
                 (Some [(''d_ch1'', False)])],
            pb_init_length_s = Finite (3022314549036573 / 2 ^ 79),
            pb_increment_s = Finite 0,
            pb_analog_channels = {}, pb_digital_channels = {''d_ch1''},
            pb_channel_set = {''d_ch1''}\<rparr>
 \<and> Finite (1511157274518287 / 2 ^ 78) \<noteq> Finite (3022314549036573 / 2 ^ 79)"
proof -
  have 1: "delete_element 0
     (snd (insert_element 0
        (PulseBlockElement (Finite 1) (Finite 0) (Some [(''a_ch1'', Idle)]) None)
        \<lparr>pb_name = ''B'', pb_element_list = [], pb_init_length_s = Finite 0,
         pb_increment_s = Finite 0,
         pb_analog_channels = {}, pb_digital_channels = {}, pb_channel_set = {}\<rparr>))
     = (Inr 0,
        \<lparr>pb_name = ''B'', pb_element_list = [], pb_init_length_s = Finite 0,
         pb_increment_s = Finite 0,
         pb_analog_channels = {''a_ch1''}, pb_digital_channels = {},
         pb_channel_set = {''a_ch1''}\<rparr>)"
    by (auto simp: delete_element_def insert_element_def py_insert_def py_index_def
        py_del_def Let_def PulseBlockElement_def startswith_def)
  have 2: "fst (block_from_dict waveform_catalog
        (block_get_dict_representation waveform_dict
           \<lparr>pb_name = ''B'', pb_element_list = [], pb_init_length_s = Finite 0,
            pb_increment_s = Finite 0,
            pb_analog_channels = {''a_ch1''}, pb_digital_channels = {},
            pb_channel_set = {''a_ch1''}\<rparr>))
     = Inr \<lparr>pb_name = ''B'', pb_element_list = [], pb_init_length_s = Finite 0,
            pb_increment_s = Finite 0,
            pb_analog_channels = {}, pb_digital_channels = {}, pb_channel_set = {}\<rparr>"
    by (simp add: block_from_dict_def block_get_dict_representation_def PulseBlock_def
        refresh_parameters_def)
  have 3: "{''a_ch1''} \<noteq> ({} :: string set)" by simp
  have 4: "delete_element 0
     (snd (append_element
        (PulseBlockElement (round_double (5 / 10 ^ 9)) (Finite 0) None
           (Some [(''d_ch1'', False)])) False
       (snd (append_element
          (PulseBlockElement (round_double (10 / 10 ^ 9)) (Finite 0) None
             (Some [(''d_ch1'', True)])) False
         \<lparr>pb_name = ''B'', pb_element_list = ([] :: waveform element list),
          pb_init_length_s = Finite 0, pb_increment_s = Finite 0,
          pb_analog_channels = {}, pb_digital_channels = {}, pb_channel_set = {}\<rparr>))))
     = (Inr 0,
        \<lparr>pb_name = ''B'',
         pb_element_list =
           [PulseBlockElement (round_double (5 / 10 ^ 9)) (Finite 0) None
              (Some [(''d_ch1'', False)])],
         pb_init_length_s = Finite (1511157274518287 / 2 ^ 78), pb_increment_s = Finite 0,
         pb_analog_channels = {}, pb_digital_channels = {''d_ch1''},
         pb_channel_set = {''d_ch1''}\<rparr>)"
    by (auto simp: delete_element_def append_element_def insert_element_def py_insert_def
        py_index_def py_del_def Let_def PulseBlockElement_def startswith_def nanoseconds)
  have 5: "fst (block_from_dict waveform_catalog
        (block_get_dict_representation waveform_dict
           \<lparr>pb_name = ''B'',
            pb_element_list =
              [PulseBlockElement (round_double (5 / 10 ^ 9)) (Finite 0) None
                 (Some [(''d_ch1'', False)])],
            pb_init_length_s = Finite (1511157274518287 / 2 ^ 78),
            pb_increment_s = Finite 0,
            pb_analog_channels = {}, pb_digital_channels = {''d_ch1''},
            pb_channel_set = {''d_ch1''}\<rparr>))
     = Inr \<lparr>pb_name = ''B'',
            pb_element_list =
              [PulseBlockElement (round_double (5 / 10 ^ 9)) (Finite 0) None
                 (Some [(''d_ch1'', False)])],
            pb_init_length_s = Finite (3022314549036573 / 2 ^ 79),
            pb_increment_s = Finite 0,
            pb_analog_channels = {}, pb_digital_channels = {''d_ch1''},
            pb_channel_set = {''d_ch1''}\<rparr>"
    by (auto simp: block_from_dict_def block_get_dict_representation_def
        element_from_dict_def element_get_dict_representation_def PulseBlock_def
        refresh_parameters_def Let_def PulseBlockElement_def startswith_def nanoseconds)
  have 6: "Finite (1511157274518287 / 2 ^ 78) \<noteq> Finite (3022314549036573 / 2 ^ 79)"
    by simp
  from 1 2 3 4 5 6 show ?thesis by (intro conjI)
qed

subsection \<open>The record passed to \<open>from_dict\<close>\<close>

lemma from_dict_loop_result:
  "from_dict_loop sf l = (Inr objs, l1) \<Longrightarrow>
     l1 = map (\<lambda>(chnl, obj). (chnl, SFObj obj)) objs \<and> length objs = length l
       \<and> (l \<noteq> [] \<longrightarrow> l1 \<noteq> l)"
proof (induction sf l arbitrary: objs l1 rule: from_dict_loop.induct)
  case (1 sf)
  then show ?case by simp
next
  case (2 sf chnl obj rest)
  then show ?case by simp
next
  case (3 sf chnl sample_dict rest)
  then show ?case
    by (auto split: sum.splits prod.splits)
qed

lemma from_dict_loop_objects:
  "objs \<noteq> [] \<Longrightarrow>
     from_dict_loop sf (map (\<lambda>(chnl, obj). (chnl, SFObj obj)) objs)
       = (Inl TypeError, map (\<lambda>(chnl, obj). (chnl, SFObj obj)) objs)"
  by (cases objs) auto

lemma PulseBlockElement_pulse_function:
  "el_pulse_function (PulseBlockElement l i (Some pf) dh) = pf"
  by (simp add: PulseBlockElement_def)

lemma element_from_dict_record:
  assumes "element_from_dict sf d = (Inr e, d1)"
  shows "d1 = d\<lparr>ed_pulse_function := map (\<lambda>(chnl, obj). (chnl, SFObj obj)) (el_pulse_function e)\<rparr>"
    and "ed_pulse_function d \<noteq> [] \<Longrightarrow> d1 \<noteq> d"
    and "ed_pulse_function d \<noteq> [] \<Longrightarrow> element_from_dict sf d1 = (Inl TypeError, d1)"
proof -
  obtain r l1 where loop: "from_dict_loop sf (ed_pulse_function d) = (r, l1)"
    by (cases "from_dict_loop sf (ed_pulse_function d)")
  with assms obtain objs where r: "r = Inr objs"
    by (cases r) (auto simp: element_from_dict_def)
  from loop r assms have e: "el_pulse_function e = objs" and d1: "d1 = d\<lparr>ed_pulse_function := l1\<rparr>"
    by (auto simp: element_from_dict_def PulseBlockElement_pulse_function)
  from loop r have res: "l1 = map (\<lambda>(chnl, obj). (chnl, SFObj obj)) objs
      \<and> length objs = length (ed_pulse_function d)
      \<and> (ed_pulse_function d \<noteq> [] \<longrightarrow> l1 \<noteq> ed_pulse_function d)"
    by (intro from_dict_loop_result) simp
  then have l1: "l1 = map (\<lambda>(chnl, obj). (chnl, SFObj obj)) objs"
    and len: "length objs = length (ed_pulse_function d)"
    and ne: "ed_pulse_function d \<noteq> [] \<longrightarrow> l1 \<noteq> ed_pulse_function d"
    by blast+
  from d1 l1 e show "d1 = d\<lparr>ed_pulse_function := map (\<lambda>(chnl, obj). (chnl, SFObj obj)) (el_pulse_function e)\<rparr>"
    by simp
  {
    assume n: "ed_pulse_function d \<noteq> []"
    with ne have "l1 \<noteq> ed_pulse_function d" by simp
    moreover from d1 have "ed_pulse_function d1 = l1" by simp
    ultimately show "d1 \<noteq> d" by auto
    from n len have "objs \<noteq> []" by auto
    then have "from_dict_loop sf l1 = (Inl TypeError, l1)"
      unfolding l1 by (rule from_dict_loop_objects)
    with d1 show "element_from_dict sf d1 = (Inl TypeError, d1)"
      by (simp add: element_from_dict_def)
  }
qed

lemma block_from_dict_loop_result:
  "block_from_dict_loop sf l = (Inr es, l1) \<Longrightarrow>
     l1 = map ElObj es \<and> length es = length l \<and> (l \<noteq> [] \<longrightarrow> l1 \<noteq> l)"
proof (induction sf l arbitrary: es l1 rule: block_from_dict_loop.induct)
  case (1 sf)
  then show ?case by simp
next
  case (2 sf element rest)
  then show ?case by simp
next
  case (3 sf element_dict rest)
  then show ?case
    by (auto split: sum.splits prod.splits)
qed

lemma block_from_dict_loop_objects:
  "es \<noteq> [] \<Longrightarrow> block_from_dict_loop sf (map ElObj es) = (Inl TypeError, map ElObj es)"
  by (cases es) auto

lemma refresh_loop_element_list:
  "refresh_loop es b = (r, b1) \<Longrightarrow> pb_element_list b1 = pb_element_list b"
proof (induction es arbitrary: b)
  case Nil
  then show ?case by simp
next
  case (Cons e es)
  let ?b1 = "b\<lparr>pb_init_length_s := fadd (pb_init_length_s b) (el_init_length_s e),
                pb_increment_s := fadd (pb_increment_s b) (el_increment_s e)\<rparr>"
  show ?case
  proof (cases "pb_channel_set b = {}")
    case True
    with Cons.prems have "refresh_loop es (?b1\<lparr>pb_channel_set := el_channel_set e\<rparr>) = (r, b1)"
      by (simp add: Let_def)
    from Cons.IH [OF this] show ?thesis by simp
  next
    case False
    show ?thesis
    proof (cases "pb_channel_set b \<noteq> el_channel_set e")
      case True
      with False Cons.prems show ?thesis by (auto simp: Let_def)
    next
      case same: False
      with False Cons.prems have "refresh_loop es ?b1 = (r, b1)"
        by (simp add: Let_def)
      from Cons.IH [OF this] show ?thesis by simp
    qed
  qed
qed

lemma PulseBlock_element_list:
  assumes "PulseBlock name (Some es) = Inr b"
  shows "pb_element_list b = es"
proof -
  let ?b0 = "\<lparr>pb_name = name, pb_element_list = es, pb_init_length_s = Finite 0, pb_increment_s = Finite 0,
              pb_analog_channels = {}, pb_digital_channels = {}, pb_channel_set = {}\<rparr>"
  obtain r b1 where l: "refresh_loop es ?b0 = (r, b1)"
    by (cases "refresh_loop es ?b0")
  then have "pb_element_list b1 = es"
    using refresh_loop_element_list [OF l] by simp
  with l assms show ?thesis
    by (cases r) (auto simp: PulseBlock_def refresh_parameters_def)
qed

lemma block_from_dict_record:
  assumes "block_from_dict sf bd = (Inr b, bd1)"
  shows "bd1 = bd\<lparr>bd_element_list := map ElObj (pb_element_list b)\<rparr>"
    and "bd_element_list bd \<noteq> [] \<Longrightarrow> bd1 \<noteq> bd"
    and "bd_element_list bd \<noteq> [] \<Longrightarrow> block_from_dict sf bd1 = (Inl TypeError, bd1)"
proof -
  obtain r l1 where loop: "block_from_dict_loop sf (bd_element_list bd) = (r, l1)"
    by (cases "block_from_dict_loop sf (bd_element_list bd)")
  with assms obtain es where r: "r = Inr es"
    by (cases r) (auto simp: block_from_dict_def)
  from loop r assms have c: "PulseBlock (bd_name bd) (Some es) = Inr b"
    and bd1: "bd1 = bd\<lparr>bd_element_list := l1\<rparr>"
    by (auto simp: block_from_dict_def)
  from c have es: "pb_element_list b = es" by (rule PulseBlock_element_list)
  from loop r have res: "l1 = map ElObj es \<and> length es = length (bd_element_list bd)
      \<and> (bd_element_list bd \<noteq> [] \<longrightarrow> l1 \<noteq> bd_element_list bd)"
    by (intro block_from_dict_loop_result) simp
  then have l1: "l1 = map ElObj es" and len: "length es = length (bd_element_list bd)"
    and ne: "bd_element_list bd \<noteq> [] \<longrightarrow> l1 \<noteq> bd_element_list bd"
    by blast+
  from bd1 l1 es show "bd1 = bd\<lparr>bd_element_list := map ElObj (pb_element_list b)\<rparr>"
    by simp
  {
    assume n: "bd_element_list bd \<noteq> []"
    with ne have "l1 \<noteq> bd_element_list bd" by simp
    moreover from bd1 have "bd_element_list bd1 = l1" by simp
    ultimately show "bd1 \<noteq> bd" by auto
    from n len have "es \<noteq> []" by auto
    then have "block_from_dict_loop sf l1 = (Inl TypeError, l1)"
      unfolding l1 by (rule block_from_dict_loop_objects)
    with bd1 show "block_from_dict sf bd1 = (Inl TypeError, bd1)"
      by (simp add: block_from_dict_def)
  }
qed

text \<open>
  C10, as amended. When \<open>element_from_dict\<close> returns an element, every entry of
  \<open>pulse_function\<close> in the record it was given has been overwritten with the
  constructed sampling-function object, and nothing else in the record has changed.
  If the record had at least one such entry, it is no longer equal to its original
  value and a second \<open>element_from_dict\<close> on it raises TypeError. Likewise
  \<open>block_from_dict\<close> overwrites every entry of \<open>element_list\<close> with the constructed
  element, and a record with at least one element differs afterwards and cannot be
  used again.
\<close>

theorem from_dict_overwrites_record:
  "(element_from_dict sf d = (Inr e, d1) \<longrightarrow>
      d1 = d\<lparr>ed_pulse_function :=
                map (\<lambda>(chnl, obj). (chnl, SFObj obj)) (el_pulse_function e)\<rparr>
      \<and> (ed_pulse_function d \<noteq> [] \<longrightarrow>
           d1 \<noteq> d \<and> element_from_dict sf d1 = (Inl TypeError, d1)))
 \<and> (block_from_dict sf bd = (Inr b, bd1) \<longrightarrow>
      bd1 = bd\<lparr>bd_element_list := map ElObj (pb_element_list b)\<rparr>
      \<and> (bd_element_list bd \<noteq> [] \<longrightarrow>
           bd1 \<noteq> bd \<and> block_from_dict sf bd1 = (Inl TypeError, bd1)))"
proof (intro conjI impI)
  assume a: "element_from_dict sf d = (Inr e, d1)"
  then show "d1 = d\<lparr>ed_pulse_function :=
                map (\<lambda>(chnl, obj). (chnl, SFObj obj)) (el_pulse_function e)\<rparr>"
    by (rule element_from_dict_record(1))
  assume n: "ed_pulse_function d \<noteq> []"
  from a n show "d1 \<noteq> d" by (rule element_from_dict_record(2))
  from a n show "element_from_dict sf d1 = (Inl TypeError, d1)"
    by (rule element_from_dict_record(3))
next
  assume a: "block_from_dict sf bd = (Inr b, bd1)"
  then show "bd1 = bd\<lparr>bd_element_list := map ElObj (pb_element_list b)\<rparr>"
    by (rule block_from_dict_record(1))
  assume n: "bd_element_list bd \<noteq> []"
  from a n show "bd1 \<noteq> bd" by (rule block_from_dict_record(2))
  from a n show "block_from_dict sf bd1 = (Inl TypeError, bd1)"
    by (rule block_from_dict_record(3))
qed

text \<open>
  A record with a constant voltage on one analog channel, and the record of a block
  with that element.
\<close>

theorem from_dict_overwrites_record_witness:
  "element_from_dict waveform_catalog
     \<lparr>ed_init_length_s = Finite 1, ed_increment_s = Finite 0, ed_digital_high = [],
      ed_pulse_function = [(''a_ch1'', SFDict \<lparr>sd_name = ''DC'', sd_params = [(''voltage'', Finite 1)]\<rparr>)]\<rparr>
   = (Inr (PulseBlockElement (Finite 1) (Finite 0) (Some [(''a_ch1'', DC (Finite 1))]) (Some [])),
      \<lparr>ed_init_length_s = Finite 1, ed_increment_s = Finite 0, ed_digital_high = [],
       ed_pulse_function = [(''a_ch1'', SFObj (DC (Finite 1)))]\<rparr>)
 \<and> element_from_dict waveform_catalog
     \<lparr>ed_init_length_s = Finite 1, ed_increment_s = Finite 0, ed_digital_high = [],
      ed_pulse_function = [(''a_ch1'', SFObj (DC (Finite 1)))]\<rparr>
   = (Inl TypeError,
      \<lparr>ed_init_length_s = Finite 1, ed_increment_s = Finite 0, ed_digital_high = [],
       ed_pulse_function = [(''a_ch1'', SFObj (DC (Finite 1)))]\<rparr>)
 \<and> snd (block_from_dict waveform_catalog
     \<lparr>bd_name = ''B'',
      bd_element_list =
        [ElDict \<lparr>ed_init_length_s = Finite 1, ed_increment_s = Finite 0, ed_digital_high = [],
                 ed_pulse_function = [(''a_ch1'', SFDict \<lparr>sd_name = ''DC'', sd_params = [(''voltage'', Finite 1)]\<rparr>)]\<rparr>]\<rparr>)
   = \<lparr>bd_name = ''B'',
      bd_element_list = [ElObj (PulseBlockElement (Finite 1) (Finite 0) (Some [(''a_ch1'', DC (Finite 1))]) (Some []))]\<rparr>
 \<and> block_from_dict waveform_catalog
     \<lparr>bd_name = ''B'',
      bd_element_list = [ElObj (PulseBlockElement (Finite 1) (Finite 0) (Some [(''a_ch1'', DC (Finite 1))]) (Some []))]\<rparr>
   = (Inl TypeError,
      \<lparr>bd_name = ''B'',
       bd_element_list = [ElObj (PulseBlockElement (Finite 1) (Finite 0) (Some [(''a_ch1'', DC (Finite 1))]) (Some []))]\<rparr>)"
proof -
  let ?d = "\<lparr>ed_init_length_s = Finite 1, ed_increment_s = Finite 0, ed_digital_high = [],
      ed_pulse_function = [(''a_ch1'', SFDict \<lparr>sd_name = ''DC'', sd_params = [(''voltage'', Finite 1)]\<rparr>)]\<rparr>"
  let ?d1 = "\<lparr>ed_init_length_s = Finite 1, ed_increment_s = Finite 0, ed_digital_high = [],
      ed_pulse_function = [(''a_ch1'', SFObj (DC (Finite 1)))]\<rparr>"
  let ?e = "PulseBlockElement (Finite 1) (Finite 0) (Some [(''a_ch1'', DC (Finite 1))]) (Some [])"
  let ?bd = "\<lparr>bd_name = ''B'', bd_element_list = [ElDict ?d]\<rparr>"
  let ?bd1 = "\<lparr>bd_name = ''B'', bd_element_list = [ElObj ?e]\<rparr>"
  let ?b = "\<lparr>pb_name = ''B'', pb_element_list = [?e], pb_init_length_s = Finite 1, pb_increment_s = Finite 0,
             pb_analog_channels = {''a_ch1''}, pb_digital_channels = {},
             pb_channel_set = {''a_ch1''}\<rparr>"
  have 1: "element_from_dict waveform_catalog ?d = (Inr ?e, ?d1)"
    by (simp add: element_from_dict_def construct_sf_def waveform_catalog_def)
  have p: "PulseBlock ''B'' (Some [?e]) = Inr ?b"
    by (auto simp: PulseBlock_def refresh_parameters_def PulseBlockElement_def startswith_def)
  have 2: "block_from_dict waveform_catalog ?bd = (Inr ?b, ?bd1)"
    by (simp add: block_from_dict_def 1 p)
  have n: "ed_pulse_function ?d \<noteq> []" "bd_element_list ?bd \<noteq> []" by simp_all
  from from_dict_overwrites_record
    [where sf = waveform_catalog and d = ?d and e = ?e and ?d1.0 = ?d1
       and bd = ?bd and b = ?b and ?bd1.0 = ?bd1]
  have "element_from_dict waveform_catalog ?d1 = (Inl TypeError, ?d1)"
    and "block_from_dict waveform_catalog ?bd1 = (Inl TypeError, ?bd1)"
    using 1 2 n by blast+
  with 1 2 show ?thesis by simp
qed

text \<open>
  An element record without analog channels and a block record without elements have
  nothing to overwrite: the record is the same after the call and can be used again.
\<close>

theorem from_dict_counterexample:
  "element_from_dict waveform_catalog
     \<lparr>ed_init_length_s = Finite 1, ed_increment_s = Finite 0, ed_digital_high = [(''d_ch1'', True)],
      ed_pulse_function = []\<rparr>
   = (Inr (PulseBlockElement (Finite 1) (Finite 0) (Some []) (Some [(''d_ch1'', True)])),
      \<lparr>ed_init_length_s = Finite 1, ed_increment_s = Finite 0, ed_digital_high = [(''d_ch1'', True)],
       ed_pulse_function = []\<rparr>)
 \<and> block_from_dict waveform_catalog \<lparr>bd_name = ''B'', bd_element_list = []\<rparr>
   = (Inr \<lparr>pb_name = ''B'', pb_element_list = [], pb_init_length_s = Finite 0, pb_increment_s = Finite 0,
           pb_analog_channels = {}, pb_digital_channels = {}, pb_channel_set = {}\<rparr>,
      \<lparr>bd_name = ''B'', bd_element_list = []\<rparr>)"
  by (simp add: element_from_dict_def block_from_dict_def PulseBlock_def refresh_parameters_def)

end
